theory Spec2Isabelle
  imports Complex_Main "HOL-Library.Multiset"
begin

section \<open>Data model\<close>

text \<open>
  The program works on pandas data frames of floating-point cells. A cell is modelled
  as \<open>real option\<close>: \<open>Some v\<close> is the number \<open>v\<close> (floats are idealised as reals, so
  rounding and infinities are outside the model) and \<open>None\<close> is NaN, the marker pandas
  uses for a missing observation. Arithmetic on cells propagates NaN, and every
  comparison with NaN is false, as in numpy.
\<close>

type_synonym fl = "real option"

text \<open>A \<open>datetime.date\<close>, by its proleptic Gregorian ordinal.\<close>

type_synonym date = nat

text \<open>
  A return data frame: the column \<open>month_end\<close> and one column per stock. \<open>stocks\<close>
  are the stock column names in column order; a row is its \<open>month_end\<close> with the cells
  of the stock columns. A data frame is rectangular: every row has one cell per stock.
\<close>

record returns_frame =
  stocks :: "string list"
  rows :: "(date \<times> fl list) list"

definition rectangular :: "returns_frame \<Rightarrow> bool" where
  "rectangular df = list_all (\<lambda>r. length (snd r) = length (stocks df)) (rows df)"

text \<open>
  A weight data frame. \<open>equalise_weights\<close> moves \<open>month_end\<close> into the index
  (\<open>set_index\<close>), the loop of \<open>generate_portfolio\<close> appends frames that carry
  \<open>month_end\<close> as a column. \<open>by_index\<close> tells which of the two holds; the first
  component of a row is its \<open>month_end\<close> label, \<open>None\<close> where the frame has none for
  that row.
\<close>

record weights_frame =
  by_index :: bool
  wrows :: "(date option \<times> fl list) list"

datatype error =
    ZeroDivisionError
  | ValueError
  | SolverRaised
  | LimitExceeded

subsection \<open>NaN-propagating arithmetic\<close>

fun fadd :: "fl \<Rightarrow> fl \<Rightarrow> fl" where
  "fadd (Some u) (Some v) = Some (u + v)"
| "fadd _ _ = None"

fun fsub :: "fl \<Rightarrow> fl \<Rightarrow> fl" where
  "fsub (Some u) (Some v) = Some (u - v)"
| "fsub _ _ = None"

fun fmul :: "fl \<Rightarrow> fl \<Rightarrow> fl" where
  "fmul (Some u) (Some v) = Some (u * v)"
| "fmul _ _ = None"

text \<open>Float division; \<open>0 / 0\<close> is NaN. A nonzero numerator over zero is an infinity,
  which no expression of the program produces in exact arithmetic; it is NaN here.\<close>

fun fdiv :: "fl \<Rightarrow> fl \<Rightarrow> fl" where
  "fdiv (Some u) (Some v) = (if v = 0 then None else Some (u / v))"
| "fdiv _ _ = None"

text \<open>\<open>np.sqrt\<close>: NaN on a negative argument.\<close>

fun fsqrt :: "fl \<Rightarrow> fl" where
  "fsqrt (Some u) = (if u < 0 then None else Some (sqrt u))"
| "fsqrt None = None"

text \<open>\<open>a > c\<close> on floats: false when \<open>a\<close> is NaN.\<close>

fun fgt :: "fl \<Rightarrow> real \<Rightarrow> bool" where
  "fgt (Some u) c = (c < u)"
| "fgt None c = False"

text \<open>\<open>np.sum\<close> of a vector.\<close>

fun fsum :: "fl list \<Rightarrow> fl" where
  "fsum [] = Some 0"
| "fsum (a # as) = fadd a (fsum as)"

text \<open>\<open>np.dot\<close> of two vectors of the same length.\<close>

definition fdot :: "fl list \<Rightarrow> fl list \<Rightarrow> fl" where
  "fdot u v = fsum (map2 fmul u v)"

text \<open>\<open>np.dot\<close> of a matrix (a list of rows) and a vector.\<close>

definition matvec :: "fl list list \<Rightarrow> fl list \<Rightarrow> fl list" where
  "matvec m v = map (\<lambda>r. fdot r v) m"

section \<open>Benchmark weights: \<open>equalise_weights\<close>\<close>

text \<open>
  \<^verbatim>\<open>
  n_length = len(df)
  df_weights = df_returns[:n_length].copy()
  df_weights.set_index("month_end", inplace=True)
  list_stocks = list(df_returns.columns); list_stocks.remove("month_end")
  df_weights[list_stocks] = 1 / len(list_stocks)
  \<close>
  The right-hand side \<open>1 / len(list_stocks)\<close> is Python's division of integers: it
  raises \<open>ZeroDivisionError\<close> when the frame has no stock column. Otherwise every
  cell of every stock column is overwritten with the quotient.
\<close>

definition equalise_weights :: "returns_frame \<Rightarrow> error + weights_frame" where
  "equalise_weights df =
     (let n_length = length (rows df);
          df_weights = take n_length (rows df);
          list_stocks = stocks df
      in if length list_stocks = 0 then Inl ZeroDivisionError
         else Inr \<lparr>by_index = True,
                   wrows = map (\<lambda>r. (Some (fst r),
                                       map (\<lambda>c. Some (1 / real (length list_stocks))) (snd r)))
                               df_weights\<rparr>)"

section \<open>Walk-forward estimates\<close>

text \<open>
  \<^verbatim>\<open>df_latest = df_returns[(df_returns["month_end"] < df_test.loc[i, "month_end"])]\<close>
\<close>

definition df_latest :: "returns_frame \<Rightarrow> date \<Rightarrow> (date \<times> fl list) list" where
  "df_latest df_returns d = filter (\<lambda>r. fst r < d) (rows df_returns)"

text \<open>Column \<open>j\<close> of the stock cells of some rows.\<close>

definition column :: "nat \<Rightarrow> (date \<times> fl list) list \<Rightarrow> fl list" where
  "column j rs = map (\<lambda>r. snd r ! j) rs"

text \<open>The observations of a column that are not NaN.\<close>

fun valid :: "fl list \<Rightarrow> real list" where
  "valid [] = []"
| "valid (None # cs) = valid cs"
| "valid (Some v # cs) = v # valid cs"

text \<open>
  \<open>DataFrame.mean()\<close> reduces each column with \<open>skipna=True\<close>: the mean of the
  observations that are not NaN, and NaN when there is none.
\<close>

definition series_mean :: "fl list \<Rightarrow> fl" where
  "series_mean cs =
     (let vs = valid cs in fdiv (Some (sum_list vs)) (Some (real (length vs))))"

text \<open>
  \<open>DataFrame.cov()\<close> (\<open>min_periods=None\<close>, \<open>ddof=1\<close>) computes the covariance of
  two columns over the rows in which both are observed: with \<open>nobs\<close> such rows, NaN when
  \<open>nobs < 1\<close> or when the divisor \<open>nobs - 1\<close> is zero, and otherwise the sum of the
  products of the deviations from the means of these rows, over \<open>nobs - 1\<close>.
\<close>

fun paired :: "fl list \<Rightarrow> fl list \<Rightarrow> (real \<times> real) list" where
  "paired (Some u # as) (Some v # bs) = (u, v) # paired as bs"
| "paired (a # as) (b # bs) = paired as bs"
| "paired _ _ = []"

definition pair_cov :: "fl list \<Rightarrow> fl list \<Rightarrow> fl" where
  "pair_cov as bs =
     (let ps = paired as bs;
          nobs = length ps;
          meanx = sum_list (map fst ps) / real nobs;
          meany = sum_list (map snd ps) / real nobs;
          covxy = sum_list (map (\<lambda>(u, v). (u - meanx) * (v - meany)) ps);
          divisor = real nobs - 1
      in if nobs < 1 then None
         else if divisor \<noteq> 0 then Some (covxy / divisor) else None)"

text \<open>
  \<^verbatim>\<open>
  expected_returns = df_latest.drop(columns=["month_end"]).mean()
  cov_matrix = df_latest.drop(columns=["month_end"]).cov()
  \<close>
  for a frame of \<open>p\<close> stock columns.
\<close>

definition expected_returns :: "nat \<Rightarrow> (date \<times> fl list) list \<Rightarrow> fl list" where
  "expected_returns p latest = map (\<lambda>j. series_mean (column j latest)) [0..<p]"

definition cov_matrix :: "nat \<Rightarrow> (date \<times> fl list) list \<Rightarrow> fl list list" where
  "cov_matrix p latest =
     map (\<lambda>j. map (\<lambda>k. pair_cov (column j latest) (column k latest)) [0..<p]) [0..<p]"

section \<open>The objective\<close>

fun fpow :: "fl \<Rightarrow> nat \<Rightarrow> fl" where
  "fpow (Some u) n = Some (u ^ n)"
| "fpow None n = None"

text \<open>
  \<^verbatim>\<open>
  portfolio_return = np.dot(weights, expected_returns)
  portfolio_volatility = np.sqrt(np.dot(weights.T, np.dot(cov_matrix, weights)))
  sharpe_ratio = portfolio_return / 0.5*(100*portfolio_volatility)**3
  return sharpe_ratio  # negative for minimization problem
  \<close>
  In Python \<open>/\<close> and \<open>*\<close> have the same precedence and associate to the left, and
  \<open>**\<close> binds tighter: the value is \<open>(portfolio_return / 0.5) * (100 * portfolio_volatility) ** 3\<close>.
  Nothing negates it.
\<close>

definition sharpe_ratio :: "fl list \<Rightarrow> fl list \<Rightarrow> fl list list \<Rightarrow> fl" where
  "sharpe_ratio weights mu sigma =
     (let portfolio_return = fdot weights mu;
          portfolio_volatility = fsqrt (fdot weights (matvec sigma weights))
      in fmul (fdiv portfolio_return (Some (1/2)))
              (fpow (fmul (Some 100) portfolio_volatility) 3))"

section \<open>The solver\<close>

text \<open>
  \<open>scipy.optimize.minimize(fun, x0, method="SLSQP", bounds=..., constraints=...,
  options={"disp": False})\<close> is a library routine outside the repository: it is a
  parameter of the model. It receives the objective, the start vector, the bounds and
  the constraints, and returns an \<open>OptimizeResult\<close>, of which the fields \<open>x\<close> and
  \<open>success\<close> are kept; \<open>None\<close> stands for an exception raised inside the routine,
  which \<open>generate_portfolio\<close> does not catch.
\<close>

record optimize_result =
  res_x :: "fl list"
  res_success :: bool

record constraint =
  ctype :: string
  cfun :: "fl list \<Rightarrow> fl list"

type_synonym minimizer =
  "(fl list \<Rightarrow> fl) \<Rightarrow> fl list \<Rightarrow> (real \<times> real) list \<Rightarrow> constraint list \<Rightarrow> optimize_result option"

text \<open>
  \<^verbatim>\<open>
  constraints = [{"type": "eq", "fun": lambda w: np.sum(w) - 1},
                 {"type": "ineq", "fun": lambda w: 0.10 - w}]
  \<close>
\<close>

definition constraints :: "constraint list" where
  "constraints =
     [\<lparr>ctype = ''eq'', cfun = (\<lambda>w. [fsub (fsum w) (Some 1)])\<rparr>,
      \<lparr>ctype = ''ineq'', cfun = (\<lambda>w. map (\<lambda>c. fsub (Some (1/10)) c) w)\<rparr>]"

section \<open>Portfolio weights: \<open>generate_portfolio\<close>\<close>

text \<open>
  \<open>pd.concat([a, b], ignore_index=True)\<close> on weight frames: the index of either
  frame is dropped, so the rows of a frame that carries \<open>month_end\<close> in its index lose
  their label (the \<open>month_end\<close> column of the result is NaN there); the stock cells
  are stacked.
\<close>

definition drop_index :: "weights_frame \<Rightarrow> (date option \<times> fl list) list" where
  "drop_index w = (if by_index w then map (\<lambda>r. (None, snd r)) (wrows w) else wrows w)"

definition concat_ignore_index :: "weights_frame \<Rightarrow> weights_frame \<Rightarrow> weights_frame" where
  "concat_ignore_index a b = \<lparr>by_index = False, wrows = drop_index a @ drop_index b\<rparr>"

text \<open>
  The call of the solver in the loop body, for the test period whose \<open>month_end\<close> is
  \<open>d\<close>:
  \<^verbatim>\<open>
  num_stocks = len(list_stocks)
  initial_weights = np.ones(num_stocks) / num_stocks
  bounds = [(0, 1) for _ in range(num_stocks)]
  opt_result = minimize(lambda w: sharpe_ratio(w, expected_returns, cov_matrix),
                        initial_weights, method="SLSQP", bounds=bounds,
                        constraints=constraints, options={"disp": False})
  \<close>
\<close>

definition opt_result :: "minimizer \<Rightarrow> returns_frame \<Rightarrow> date \<Rightarrow> optimize_result option" where
  "opt_result minimize df_returns d =
     (let latest = df_latest df_returns d;
          num_stocks = length (stocks df_returns);
          mu = expected_returns num_stocks latest;
          sigma = cov_matrix num_stocks latest;
          initial_weights = replicate num_stocks (fdiv (Some 1) (Some (real num_stocks)));
          bounds = replicate num_stocks (0, 1)
      in minimize (\<lambda>w. sharpe_ratio w mu sigma) initial_weights bounds constraints)"

text \<open>
  The rest of the loop body:
  \<^verbatim>\<open>
  optimized_weights = opt_result.x
  df_this = pd.DataFrame(data=[[df_test.loc[i, "month_end"]] + list(optimized_weights)],
                         columns=["month_end"] + list_stocks)
  df_weights = pd.concat([df_weights, df_this], ignore_index=True)
  \<close>
  The field \<open>x\<close> is used whatever the field \<open>success\<close> says. \<open>pd.DataFrame\<close> raises
  \<open>ValueError\<close> when the row does not have one entry per column.
\<close>

definition solve_period ::
  "minimizer \<Rightarrow> returns_frame \<Rightarrow> date \<Rightarrow> weights_frame \<Rightarrow> error + weights_frame" where
  "solve_period minimize df_returns d df_weights =
     (case opt_result minimize df_returns d of
        None \<Rightarrow> Inl SolverRaised
      | Some opt \<Rightarrow>
          (let optimized_weights = res_x opt
           in if length optimized_weights \<noteq> length (stocks df_returns) then Inl ValueError
              else Inr (concat_ignore_index df_weights
                          \<lparr>by_index = False, wrows = [(Some d, optimized_weights)]\<rparr>)))"

text \<open>
  \<open>for i in range(len(df_test))\<close>: \<open>df_test\<close> carries the default index \<open>0, 1, \<dots>\<close>
  of \<open>read_csv\<close>, so \<open>df_test.loc[i, "month_end"]\<close> is the date of its \<open>i\<close>-th row and the
  loop runs over the dates of the test rows in order.
\<close>

fun period_loop ::
  "minimizer \<Rightarrow> returns_frame \<Rightarrow> date list \<Rightarrow> weights_frame \<Rightarrow> error + weights_frame" where
  "period_loop minimize df_returns [] df_weights = Inr df_weights"
| "period_loop minimize df_returns (d # ds) df_weights =
     (case solve_period minimize df_returns d df_weights of
        Inl e \<Rightarrow> Inl e
      | Inr df_weights' \<Rightarrow> period_loop minimize df_returns ds df_weights')"

text \<open>
  \<^verbatim>\<open>
  if len(np.array(df_weights[list_stocks])[np.array(df_weights[list_stocks]) > 0.101]):
      raise Exception(r"---> 10% limit exceeded")
  \<close>
\<close>

definition limit_exceeded :: "weights_frame \<Rightarrow> bool" where
  "limit_exceeded df_weights =
     (length (filter (\<lambda>c. fgt c (101/1000)) (concat (map snd (wrows df_weights)))) \<noteq> 0)"

text \<open>
  \<open>df_returns = pd.concat(objs=[df_train, df_test], ignore_index=True)\<close> stacks the rows
  of the two frames and aligns their columns by name: the columns of the result are those
  of \<open>df_train\<close>, followed by the columns of \<open>df_test\<close> that \<open>df_train\<close> does not have, in
  their order; a row has NaN in the columns that its own frame does not have. The column
  names of a frame are distinct, as \<open>read_csv\<close> makes them.

  \<open>align_columns\<close> takes the cells of a row, given under the column names \<open>columns_from\<close>,
  to the columns \<open>columns_to\<close>.
\<close>

definition align_columns :: "string list \<Rightarrow> string list \<Rightarrow> fl list \<Rightarrow> fl list" where
  "align_columns columns_from columns_to cells =
     map (\<lambda>s. case map_of (zip columns_from cells) s of None \<Rightarrow> None | Some c \<Rightarrow> c)
         columns_to"

definition concat_returns :: "returns_frame \<Rightarrow> returns_frame \<Rightarrow> returns_frame" where
  "concat_returns df_train df_test =
     (let columns = stocks df_train @
                    filter (\<lambda>s. s \<notin> set (stocks df_train)) (stocks df_test)
      in \<lparr>stocks = columns,
          rows = map (\<lambda>r. (fst r, align_columns (stocks df_train) columns (snd r)))
                     (rows df_train) @
                 map (\<lambda>r. (fst r, align_columns (stocks df_test) columns (snd r)))
                     (rows df_test)\<rparr>)"

text \<open>
  The weight frame when the loop ends: the equal weights of the training rows
  (\<open>equalise_weights(df_returns[:n_train])\<close>), then the rows of the test periods.
\<close>

definition weight_schedule ::
  "minimizer \<Rightarrow> returns_frame \<Rightarrow> returns_frame \<Rightarrow> error + weights_frame" where
  "weight_schedule minimize df_train df_test =
     (let n_train = length (rows df_train);
          df_returns = concat_returns df_train df_test
      in case equalise_weights (df_returns\<lparr>rows := take n_train (rows df_returns)\<rparr>) of
           Inl e \<Rightarrow> Inl e
         | Inr df_weights \<Rightarrow>
             period_loop minimize df_returns (map fst (rows df_test)) df_weights)"

text \<open>The limit check follows the loop; the function returns both frames.\<close>

definition generate_portfolio ::
  "minimizer \<Rightarrow> returns_frame \<Rightarrow> returns_frame \<Rightarrow> error + (returns_frame \<times> weights_frame)" where
  "generate_portfolio minimize df_train df_test =
     (case weight_schedule minimize df_train df_test of
        Inl e \<Rightarrow> Inl e
      | Inr df_weights \<Rightarrow>
          if limit_exceeded df_weights then Inl LimitExceeded
          else Inr (concat_returns df_train df_test, df_weights))"

section \<open>Total return indices: \<open>plot_total_return\<close>\<close>

text \<open>\<open>np.nan_to_num(x=ar_returns, copy=False, nan=0)\<close> on one cell.\<close>

definition nan_to_num :: "fl \<Rightarrow> fl" where
  "nan_to_num c = (case c of None \<Rightarrow> Some 0 | Some v \<Rightarrow> Some v)"

text \<open>
  \<^verbatim>\<open>
  ar_rtn = np.array(df_weights[list_stocks]) * ar_returns
  v_rtn = np.sum(ar_rtn, axis=1)
  df_rtn[...] = v_rtn
  \<close>
  The product is elementwise. numpy broadcasts a weight array of one row over all
  return rows; any other difference in the number of rows raises \<open>ValueError\<close>, in the
  product or in the assignment of the column.
\<close>

definition weighted_returns :: "weights_frame \<Rightarrow> fl list list \<Rightarrow> error + fl list" where
  "weighted_returns df_weights ar_returns =
     (let ar_weights = map snd (wrows df_weights)
      in if length ar_weights = length ar_returns
         then Inr (map2 (\<lambda>w r. fsum (map2 fmul w r)) ar_weights ar_returns)
         else if length ar_weights = 1
         then Inr (map (\<lambda>r. fsum (map2 fmul (hd ar_weights) r)) ar_returns)
         else Inl ValueError)"

text \<open>
  \<open>Series.cumprod()\<close> skips NaN: a NaN entry stays NaN and does not enter the
  running product.
\<close>

fun cumprod :: "real \<Rightarrow> fl list \<Rightarrow> fl list" where
  "cumprod acc [] = []"
| "cumprod acc (None # cs) = None # cumprod acc cs"
| "cumprod acc (Some v # cs) = Some (acc * v) # cumprod (acc * v) cs"

record rtn_row =
  month_end :: date
  index :: fl
  portfolio :: fl
  index_tr :: fl
  portfolio_tr :: fl

text \<open>
  \<^verbatim>\<open>
  base_price = 100
  df_rtn.sort_values(by="month_end", inplace=True)
  df_rtn["index_tr"] = ((1 + df_rtn["index"]).cumprod()) * base_price
  df_rtn["portfolio_tr"] = ((1 + df_rtn["portfolio"]).cumprod()) * base_price
  \<close>
  The function returns the figure and \<open>df_rtn\<close>; the model returns \<open>df_rtn\<close>.
  The columns \<open>index\<close> and \<open>portfolio\<close> are assigned by position before the rows are
  sorted. With distinct dates, as in a return frame, every sorting algorithm gives the
  same order; the order that pandas leaves among rows of equal date is not specified, and
  the model keeps their order.
\<close>

definition total_return :: "fl list \<Rightarrow> fl list" where
  "total_return v = map (\<lambda>c. fmul c (Some 100)) (cumprod 1 (map (\<lambda>c. fadd (Some 1) c) v))"

definition plot_total_return ::
  "returns_frame \<Rightarrow> weights_frame \<Rightarrow> weights_frame \<Rightarrow> error + rtn_row list" where
  "plot_total_return df_returns df_weights_index df_weights_portfolio =
     (let ar_returns = map (\<lambda>r. map nan_to_num (snd r)) (rows df_returns)
      in case weighted_returns df_weights_index ar_returns of
           Inl e \<Rightarrow> Inl e
         | Inr v_rtn_index \<Rightarrow>
             (case weighted_returns df_weights_portfolio ar_returns of
                Inl e \<Rightarrow> Inl e
              | Inr v_rtn_port \<Rightarrow>
                  (let df_rtn = sort_key fst
                         (zip (map fst (rows df_returns)) (zip v_rtn_index v_rtn_port));
                       tr_index = total_return (map (\<lambda>r. fst (snd r)) df_rtn);
                       tr_port = total_return (map (\<lambda>r. snd (snd r)) df_rtn)
                   in Inr (map (\<lambda>(r, t). \<lparr>month_end = fst r, index = fst (snd r),
                                           portfolio = snd (snd r),
                                           index_tr = fst t, portfolio_tr = snd t\<rparr>)
                               (zip df_rtn (zip tr_index tr_port))))))"

section \<open>Definitions for the statements\<close>

text \<open>
  The objective as the specification writes it, in the arithmetic of the program:
  \<open>f(w) = (w \<cdot> \<mu>) / (0.5 \<cdot> (100 \<cdot> \<surd>(w\<^sup>T \<Sigma> w))\<^sup>3)\<close>.
\<close>

definition spec_objective :: "fl list \<Rightarrow> fl list \<Rightarrow> fl list list \<Rightarrow> fl" where
  "spec_objective w mu sigma =
     fdiv (fdot w mu)
          (fmul (Some (1/2)) (fpow (fmul (Some 100) (fsqrt (fdot w (matvec sigma w)))) 3))"

text \<open>
  The estimates as the specification writes them, in the arithmetic of the program:
  the arithmetic mean of a column over all selected rows, and the sample covariance of
  two columns over all selected rows with denominator \<open>n - 1\<close>, \<open>n\<close> the number of
  selected rows, undefined (NaN) for fewer than two rows. A NaN observation makes either
  of them NaN.
\<close>

definition spec_mean :: "fl list \<Rightarrow> fl" where
  "spec_mean cs = fdiv (fsum cs) (Some (real (length cs)))"

definition spec_cov :: "fl list \<Rightarrow> fl list \<Rightarrow> fl" where
  "spec_cov as bs =
     (let n = length as
      in if n < 2 then None
         else fdiv (fsum (map2 (\<lambda>a b. fmul (fsub a (spec_mean as)) (fsub b (spec_mean bs))) as bs))
                   (Some (real n - 1)))"

text \<open>
  The selected rows have \<open>p\<close> cells each and no missing observation.
\<close>

definition observed :: "nat \<Rightarrow> (date \<times> fl list) list \<Rightarrow> bool" where
  "observed p latest =
     list_all (\<lambda>r. length (snd r) = p \<and> list_all (\<lambda>c. c \<noteq> None) (snd r)) latest"

text \<open>
  The return of a period as the specification writes it: the sum over the assets of
  weight times return, a missing return counting as \<open>0\<close>.
\<close>

definition spec_period_return :: "fl list \<Rightarrow> fl list \<Rightarrow> fl" where
  "spec_period_return ws cs =
     fsum (map2 (\<lambda>w c. fmul w (case c of None \<Rightarrow> Some 0 | Some v \<Rightarrow> Some v)) ws cs)"

text \<open>
  The rows that the loop appends for the test periods \<open>ds\<close>, when every call of the
  solver returns.
\<close>

definition solved_rows :: "minimizer \<Rightarrow> returns_frame \<Rightarrow> date list \<Rightarrow> (date option \<times> fl list) list" where
  "solved_rows m R ds = map (\<lambda>d. (Some d, res_x (the (opt_result m R d)))) ds"

section \<open>Concrete inputs\<close>

text \<open>
  Two stand-ins for the solver, for concrete runs. \<open>solver_start\<close> returns the start
  vector and reports success. For ten stocks the start vector \<open>(1/10, \<dots>, 1/10)\<close> is the
  only vector that satisfies the constraints, so this is what an exact solver returns there.
  \<open>solver_stalled\<close> stands for a run that stops short of a solution: it returns half
  the start vector, which does not sum to one, and reports that it did not converge.
  \<open>solver_halved\<close> returns the same vector and reports success.
\<close>

definition solver_start :: minimizer where
  "solver_start f x0 b c = Some \<lparr>res_x = x0, res_success = True\<rparr>"

definition solver_stalled :: minimizer where
  "solver_stalled f x0 b c =
     Some \<lparr>res_x = map (\<lambda>w. fmul w (Some (1/2))) x0, res_success = False\<rparr>"

definition solver_halved :: minimizer where
  "solver_halved f x0 b c =
     Some \<lparr>res_x = map (\<lambda>w. fmul w (Some (1/2))) x0, res_success = True\<rparr>"

text \<open>
  A frame with the column \<open>month_end\<close> only, and a frame of two stocks with
  missing observations.
\<close>

definition no_stock_frame :: returns_frame where
  "no_stock_frame = \<lparr>stocks = [], rows = [(738551, [])]\<rparr>"

definition two_stock_frame :: returns_frame where
  "two_stock_frame =
     \<lparr>stocks = [''A'', ''B''], rows = [(738551, [Some (1/100), None]), (738579, [None, None])]\<rparr>"

text \<open>
  A universe of one stock: the equal weight is \<open>1\<close>.
\<close>

definition one_stock_train :: returns_frame where
  "one_stock_train = \<lparr>stocks = [''A''], rows = [(738551, [Some (1/100)])]\<rparr>"

definition one_stock_test :: returns_frame where
  "one_stock_test = \<lparr>stocks = [''A''], rows = [(738579, [Some (2/100)])]\<rparr>"

text \<open>
  A universe of ten stocks, two training months (2022-12-31, 2023-01-31) and two test
  months (2023-02-28, 2023-03-31); a test frame whose dates overlap the training dates
  and are not ascending; a training frame without rows.
\<close>

definition ten_stocks :: "string list" where
  "ten_stocks = [''S0'', ''S1'', ''S2'', ''S3'', ''S4'', ''S5'', ''S6'', ''S7'', ''S8'', ''S9'']"

definition row_up :: "fl list" where
  "row_up = [Some (1/100), Some (2/100), Some (1/100), Some (3/100), Some (1/100),
             Some (2/100), Some (1/100), Some (3/100), Some (1/100), Some (2/100)]"

definition row_down :: "fl list" where
  "row_down = [Some (-1/100), Some (1/100), None, Some (-2/100), Some (1/100),
               Some (-1/100), Some (1/100), Some (-2/100), Some (1/100), Some (-1/100)]"

definition twentieth_row :: "fl list" where
  "twentieth_row = [Some (1/20), Some (1/20), Some (1/20), Some (1/20), Some (1/20),
                    Some (1/20), Some (1/20), Some (1/20), Some (1/20), Some (1/20)]"

definition tenth_row :: "fl list" where
  "tenth_row = [Some (1/10), Some (1/10), Some (1/10), Some (1/10), Some (1/10),
                Some (1/10), Some (1/10), Some (1/10), Some (1/10), Some (1/10)]"

definition train10 :: returns_frame where
  "train10 = \<lparr>stocks = ten_stocks, rows = [(738520, row_up), (738551, row_down)]\<rparr>"

definition test10 :: returns_frame where
  "test10 = \<lparr>stocks = ten_stocks, rows = [(738579, row_down), (738610, row_up)]\<rparr>"

definition test10_overlap :: returns_frame where
  "test10_overlap = \<lparr>stocks = ten_stocks, rows = [(738551, row_up), (738489, row_down)]\<rparr>"

definition no_train10 :: returns_frame where
  "no_train10 = \<lparr>stocks = ten_stocks, rows = []\<rparr>"

text \<open>
  A frame of one stock, the same frame with the rows from 2023-02-28 on changed, and
  a frame in which the second month has no observation.
\<close>

definition past_frame :: returns_frame where
  "past_frame = \<lparr>stocks = [''A''],
     rows = [(738520, [Some (1/100)]), (738551, [Some (3/100)]), (738579, [Some (5/100)]),
             (738610, [Some (7/100)])]\<rparr>"

definition past_frame_mutated :: returns_frame where
  "past_frame_mutated = \<lparr>stocks = [''A''],
     rows = [(738520, [Some (1/100)]), (738551, [Some (3/100)]), (738579, [None]),
             (738640, [Some 9])]\<rparr>"

definition gap_frame :: returns_frame where
  "gap_frame = \<lparr>stocks = [''A''],
     rows = [(738520, [Some (1/100)]), (738551, [None]), (738579, [Some (3/100)]),
             (738610, [Some (2/100)])]\<rparr>"

text \<open>
  A universe of eleven stocks whose returns move in parallel: over the first three
  months the mean return is \<open>1/20\<close> for the first stock and \<open>0\<close> for the others, and
  every covariance is \<open>1/2500\<close>. Two weight vectors that satisfy the constraints: one
  gives the first stock the full \<open>1/10\<close>, the other gives it nothing.
\<close>

definition eleven_stocks :: "string list" where
  "eleven_stocks = [''S0'', ''S1'', ''S2'', ''S3'', ''S4'', ''S5'', ''S6'', ''S7'', ''S8'', ''S9'', ''S10'']"

definition eleven_frame :: returns_frame where
  "eleven_frame = \<lparr>stocks = eleven_stocks,
     rows = [(738520, Some (3/100) # replicate 10 (Some (- (1/50)))),
             (738551, Some (1/20) # replicate 10 (Some 0)),
             (738579, Some (7/100) # replicate 10 (Some (1/50))),
             (738610, replicate 11 (Some 0))]\<rparr>"

definition mu11 :: "fl list" where
  "mu11 = Some (1/20) # replicate 10 (Some 0)"

definition sigma11 :: "fl list list" where
  "sigma11 = replicate 11 (replicate 11 (Some (1/2500)))"

definition w_first :: "fl list" where
  "w_first = [Some (1/10), Some (1/10), Some (1/10), Some (1/10), Some (1/10), Some (1/10),
              Some (1/10), Some (1/10), Some (1/10), Some (1/10), Some 0]"

definition w_last :: "fl list" where
  "w_last = [Some 0, Some (1/10), Some (1/10), Some (1/10), Some (1/10), Some (1/10),
             Some (1/10), Some (1/10), Some (1/10), Some (1/10), Some (1/10)]"

text \<open>
  Two months of returns of two stocks, with a missing observation in the first month,
  equal index weights, portfolio weights, and the resulting frame of returns.
\<close>

definition rtn_frame :: returns_frame where
  "rtn_frame = \<lparr>stocks = [''A'', ''B''],
     rows = [(738551, [Some 0, None]), (738579, [Some (1/10), Some (3/10)])]\<rparr>"

definition rtn_index_weights :: weights_frame where
  "rtn_index_weights = \<lparr>by_index = True,
     wrows = [(Some 738551, [Some (1/2), Some (1/2)]), (Some 738579, [Some (1/2), Some (1/2)])]\<rparr>"

definition rtn_portfolio_weights :: weights_frame where
  "rtn_portfolio_weights = \<lparr>by_index = False,
     wrows = [(None, [Some (1/2), Some (1/2)]), (Some 738579, [Some (1/4), Some (3/4)])]\<rparr>"

definition rtn_expected :: "rtn_row list" where
  "rtn_expected =
     [\<lparr>month_end = 738551, index = Some 0, portfolio = Some 0,
       index_tr = Some 100, portfolio_tr = Some 100\<rparr>,
      \<lparr>month_end = 738579, index = Some (1/5), portfolio = Some (1/4),
       index_tr = Some 120, portfolio_tr = Some 125\<rparr>]"

section \<open>Properties\<close>

subsection \<open>NaN arithmetic\<close>

lemma fmul_None [simp]: "fmul a None = None"
  by (cases a) simp_all

lemma valid_Some [simp]: "valid (map Some vs) = vs"
  by (induction vs) simp_all

lemma fsum_Some [simp]: "fsum (map Some vs) = Some (sum_list vs)"
  by (induction vs) simp_all

lemma paired_Some [simp]: "paired (map Some us) (map Some vs) = zip us vs"
  by (induction us arbitrary: vs) (case_tac vs; simp)+



lemma fdot_const_left:
  "length ws = n \<Longrightarrow> fdot (replicate n (Some c)) (map Some ws) = Some (c * sum_list ws)"
proof (induction ws arbitrary: n)
  case Nil
  then show ?case by (simp add: fdot_def)
next
  case (Cons a ws)
  then obtain k where n: "n = Suc k" "length ws = k" by (cases n) auto
  from Cons.IH [OF n(2)] show ?case
    by (simp add: n fdot_def algebra_simps)
qed

lemma fdot_const_right:
  "length ws = n \<Longrightarrow> fdot (map Some ws) (replicate n (Some c)) = Some (c * sum_list ws)"
proof (induction ws arbitrary: n)
  case Nil
  then show ?case by (simp add: fdot_def)
next
  case (Cons a ws)
  then obtain k where n: "n = Suc k" "length ws = k" by (cases n) auto
  from Cons.IH [OF n(2)] show ?case
    by (simp add: n fdot_def algebra_simps)
qed

lemma sqrt_2500: "sqrt (1/2500) = 1/50"
  by (rule real_sqrt_unique) (simp_all add: power2_eq_square)

subsection \<open>The objective\<close>

lemma quad_first: "fdot w_first (matvec sigma11 w_first) = Some (1/2500)"
  by (simp add: fdot_def matvec_def sigma11_def w_first_def numeral_eq_Suc)

lemma quad_last: "fdot w_last (matvec sigma11 w_last) = Some (1/2500)"
  by (simp add: fdot_def matvec_def sigma11_def w_last_def numeral_eq_Suc)

lemma objective_values:
  "sharpe_ratio w_first mu11 sigma11 = Some (2/25) \<and>
   sharpe_ratio w_last mu11 sigma11 = Some 0 \<and>
   spec_objective w_first mu11 sigma11 = Some (1/800) \<and>
   spec_objective w_last mu11 sigma11 = Some 0"
proof -
  have r1: "fdot w_first mu11 = Some (1/200)" and r2: "fdot w_last mu11 = Some 0"
    by (simp_all add: fdot_def w_first_def w_last_def mu11_def numeral_eq_Suc)
  show ?thesis
    by (simp add: sharpe_ratio_def spec_objective_def quad_first quad_last r1 r2 sqrt_2500)
qed

lemma eleven_latest:
  "df_latest eleven_frame 738610 =
     [(738520, Some (3/100) # replicate 10 (Some (- (1/50)))),
      (738551, Some (1/20) # replicate 10 (Some 0)),
      (738579, Some (7/100) # replicate 10 (Some (1/50)))]"
  by (simp add: df_latest_def eleven_frame_def)

lemma eleven_column:
  assumes "j < 11"
  shows "column j (df_latest eleven_frame 738610) =
           (if j = 0 then [Some (3/100), Some (1/20), Some (7/100)]
            else [Some (- (1/50)), Some 0, Some (1/50)])"
  using assms by (cases j) (simp_all add: eleven_latest column_def)

lemma eleven_mean:
  "series_mean [Some (3/100), Some (1/20), Some (7/100)] = Some (1/20)"
  "series_mean [Some (- (1/50)), Some 0, Some (1/50)] = Some 0"
  by (simp_all add: series_mean_def)

lemma eleven_cov:
  "pair_cov [Some (3/100), Some (1/20), Some (7/100)] [Some (3/100), Some (1/20), Some (7/100)] = Some (1/2500)"
  "pair_cov [Some (3/100), Some (1/20), Some (7/100)] [Some (- (1/50)), Some 0, Some (1/50)] = Some (1/2500)"
  "pair_cov [Some (- (1/50)), Some 0, Some (1/50)] [Some (3/100), Some (1/20), Some (7/100)] = Some (1/2500)"
  "pair_cov [Some (- (1/50)), Some 0, Some (1/50)] [Some (- (1/50)), Some 0, Some (1/50)] = Some (1/2500)"
  by (simp_all add: pair_cov_def Let_def)

lemma eleven_estimates:
  "expected_returns 11 (df_latest eleven_frame 738610) = mu11"
  "cov_matrix 11 (df_latest eleven_frame 738610) = sigma11"
proof -
  let ?L = "df_latest eleven_frame 738610"
  show "expected_returns 11 ?L = mu11"
  proof (rule nth_equalityI)
    show "length (expected_returns 11 ?L) = length mu11"
      by (simp add: expected_returns_def mu11_def)
    fix j assume "j < length (expected_returns 11 ?L)"
    then have j: "j < 11" by (simp add: expected_returns_def)
    then show "expected_returns 11 ?L ! j = mu11 ! j"
      by (simp add: expected_returns_def eleven_column eleven_mean mu11_def nth_Cons')
  qed
  show "cov_matrix 11 ?L = sigma11"
  proof (rule nth_equalityI)
    show "length (cov_matrix 11 ?L) = length sigma11"
      by (simp add: cov_matrix_def sigma11_def)
    fix j assume "j < length (cov_matrix 11 ?L)"
    then have j: "j < 11" by (simp add: cov_matrix_def)
    have "map (\<lambda>k. pair_cov (column j ?L) (column k ?L)) [0..<11] = replicate 11 (Some (1/2500))"
    proof (rule nth_equalityI)
      show "length (map (\<lambda>k. pair_cov (column j ?L) (column k ?L)) [0..<11]) =
            length (replicate 11 (Some (1/2500::real)))"
        by simp
      fix k assume "k < length (map (\<lambda>k. pair_cov (column j ?L) (column k ?L)) [0..<11])"
      then have k: "k < 11" by simp
      show "map (\<lambda>k. pair_cov (column j ?L) (column k ?L)) [0..<11] ! k =
            replicate 11 (Some (1/2500)) ! k"
        using j k by (simp add: eleven_column eleven_cov)
    qed
    then show "cov_matrix 11 ?L ! j = sigma11 ! j"
      using j by (simp add: cov_matrix_def sigma11_def)
  qed
qed

lemma sharpe_ratio_eleven:
  assumes "length ws = 11" and "sum_list ws = 1"
  shows "sharpe_ratio (map Some ws) mu11 sigma11 = Some (4/5 * hd ws)"
    and "spec_objective (map Some ws) mu11 sigma11 = Some (hd ws / 80)"
proof -
  from assms(1) obtain a rest where ws: "ws = a # rest" "length rest = 10"
    by (cases ws) auto
  have "matvec sigma11 (map Some ws) = replicate 11 (Some (1/2500))"
    using assms by (simp add: matvec_def sigma11_def fdot_const_left map_replicate_const)
  then have q: "fdot (map Some ws) (matvec sigma11 (map Some ws)) = Some (1/2500)"
    using assms by (simp add: fdot_const_right)
  have "fdot (map Some rest) (replicate 10 (Some 0)) = Some 0"
    using ws(2) by (simp add: fdot_const_right)
  then have r: "fdot (map Some ws) mu11 = Some (a / 20)"
    by (simp add: ws(1) mu11_def fdot_def)
  have h: "hd ws = a"
    by (simp add: ws(1))
  show "sharpe_ratio (map Some ws) mu11 sigma11 = Some (4/5 * hd ws)"
    unfolding sharpe_ratio_def Let_def q r h by (simp add: sqrt_2500)
  show "spec_objective (map Some ws) mu11 sigma11 = Some (hd ws / 80)"
    unfolding spec_objective_def q r h by (simp add: sqrt_2500)
qed

text \<open>
  C1 fails on the code. For the eleven-stock frame the estimates of the period 2023-03-31
  are \<open>mu11\<close> and \<open>sigma11\<close>. The function handed to \<open>minimize\<close> is
  \<open>(w \<cdot> \<mu> / 0.5) \<cdot> (100 \<cdot> \<surd>(w\<^sup>T \<Sigma> w))\<^sup>3\<close>, not negated: at \<open>w_first\<close> it is
  \<open>2/25\<close> where the specified objective is \<open>1/800\<close>. Both \<open>w_first\<close> and \<open>w_last\<close>
  sum to one. Over all vectors of eleven weights in \<open>[0, 1/10]\<close> that sum to one the
  function of the code is at least \<open>0\<close>, its value at \<open>w_last\<close>: \<open>w_last\<close> is what an exact
  minimiser returns. The specified objective is \<open>0\<close> at \<open>w_last\<close> and \<open>1/800\<close> at
  \<open>w_first\<close>, so \<open>w_last\<close> does not maximise it.
\<close>

theorem minimiser_is_not_maximiser:
  "expected_returns 11 (df_latest eleven_frame 738610) = mu11 \<and>
   cov_matrix 11 (df_latest eleven_frame 738610) = sigma11 \<and>
   fsum w_first = Some 1 \<and> fsum w_last = Some 1 \<and>
   sharpe_ratio w_first mu11 sigma11 = Some (2/25) \<and>
   sharpe_ratio w_last mu11 sigma11 = Some 0 \<and>
   spec_objective w_first mu11 sigma11 = Some (1/800) \<and>
   spec_objective w_last mu11 sigma11 = Some 0 \<and>
   (\<forall>ws. length ws = 11 \<and> sum_list ws = 1 \<and> (\<forall>v \<in> set ws. 0 \<le> v \<and> v \<le> 1/10) \<longrightarrow>
      (\<exists>a. sharpe_ratio (map Some ws) mu11 sigma11 = Some a \<and> 0 \<le> a))"
proof -
  have f: "fsum w_first = Some 1" "fsum w_last = Some 1"
    by (simp_all add: w_first_def w_last_def)
  have "\<exists>a. sharpe_ratio (map Some ws) mu11 sigma11 = Some a \<and> 0 \<le> a"
    if "length ws = 11" "sum_list ws = 1" "\<forall>v \<in> set ws. 0 \<le> v \<and> v \<le> 1/10" for ws
  proof -
    from that(1) have "ws \<noteq> []" by auto
    then have "0 \<le> 4/5 * hd ws" using that(3) by simp
    then show ?thesis
      using sharpe_ratio_eleven(1) [OF that(1,2)] by blast
  qed
  then show ?thesis
    using f eleven_estimates objective_values by blast
qed

theorem minimiser_is_not_maximiser_witness:
  "length [1/10, 1/10, 1/10, 1/10, 1/10, 1/10, 1/10, 1/10, 1/10, 1/10, 0 :: real] = 11 \<and>
   sum_list [1/10, 1/10, 1/10, 1/10, 1/10, 1/10, 1/10, 1/10, 1/10, 1/10, 0 :: real] = 1 \<and>
   (\<exists>a. sharpe_ratio w_first mu11 sigma11 = Some a \<and> 0 \<le> a)"
proof -
  let ?ws = "[1/10, 1/10, 1/10, 1/10, 1/10, 1/10, 1/10, 1/10, 1/10, 1/10, 0 :: real]"
  have h: "length ?ws = 11" "sum_list ?ws = 1" "\<forall>v \<in> set ?ws. 0 \<le> v \<and> v \<le> 1/10"
    by simp_all
  have w: "map Some ?ws = w_first"
    by (simp add: w_first_def)
  have "\<exists>a. sharpe_ratio (map Some ?ws) mu11 sigma11 = Some a \<and> 0 \<le> a"
    using minimiser_is_not_maximiser h by blast
  then show ?thesis
    using h w by simp
qed

subsection \<open>Walk-forward estimates\<close>

text \<open>
  C2: the estimates for the period with date \<open>d\<close>, the call of the solver and the row
  appended for the period are the same for two return frames whose rows with a date
  before \<open>d\<close> coincide.
\<close>

theorem estimate_no_look_ahead:
  assumes "stocks R1 = stocks R2"
    and "filter (\<lambda>r. fst r < d) (rows R1) = filter (\<lambda>r. fst r < d) (rows R2)"
  shows "expected_returns p (df_latest R1 d) = expected_returns p (df_latest R2 d) \<and>
         cov_matrix p (df_latest R1 d) = cov_matrix p (df_latest R2 d) \<and>
         opt_result m R1 d = opt_result m R2 d \<and>
         solve_period m R1 d W = solve_period m R2 d W"
proof -
  have l: "df_latest R1 d = df_latest R2 d"
    using assms(2) by (simp add: df_latest_def)
  then have o: "opt_result m R1 d = opt_result m R2 d"
    using assms(1) by (simp add: opt_result_def)
  then show ?thesis
    using l assms(1) by (simp add: solve_period_def Let_def split: option.splits)
qed

theorem estimate_no_look_ahead_witness:
  "stocks past_frame = stocks past_frame_mutated \<and>
   filter (\<lambda>r. fst r < 738579) (rows past_frame) =
     filter (\<lambda>r. fst r < 738579) (rows past_frame_mutated) \<and>
   expected_returns 1 (df_latest past_frame 738579) =
     expected_returns 1 (df_latest past_frame_mutated 738579) \<and>
   cov_matrix 1 (df_latest past_frame 738579) =
     cov_matrix 1 (df_latest past_frame_mutated 738579) \<and>
   opt_result solver_start past_frame 738579 = opt_result solver_start past_frame_mutated 738579 \<and>
   solve_period solver_start past_frame 738579 \<lparr>by_index = True, wrows = []\<rparr> =
     solve_period solver_start past_frame_mutated 738579 \<lparr>by_index = True, wrows = []\<rparr>"
proof -
  have h1: "stocks past_frame = stocks past_frame_mutated"
    by (simp add: past_frame_def past_frame_mutated_def)
  have h2: "filter (\<lambda>r. fst r < 738579) (rows past_frame) =
     filter (\<lambda>r. fst r < 738579) (rows past_frame_mutated)"
    by (simp add: past_frame_def past_frame_mutated_def)
  show ?thesis
    using h1 h2 estimate_no_look_ahead [OF h1 h2] by blast
qed

lemma length_paired: "length (paired as bs) \<le> min (length as) (length bs)"
  by (induction as bs rule: paired.induct) auto

lemma pair_cov_degenerate:
  assumes "length as < 2"
  shows "pair_cov as bs = None"
proof -
  have "length (paired as bs) = 0 \<or> length (paired as bs) = 1"
    using length_paired [of as bs] assms by linarith
  then show ?thesis
    by (auto simp: pair_cov_def Let_def)
qed

lemma series_mean_Some: "series_mean (map Some vs) = spec_mean (map Some vs)"
  by (simp add: series_mean_def spec_mean_def)

lemma pair_cov_Some:
  assumes "length us = length vs"
  shows "pair_cov (map Some us) (map Some vs) = spec_cov (map Some us) (map Some vs)"
proof (cases "length us < 2")
  case True
  then show ?thesis
    using pair_cov_degenerate [of "map Some us"] by (simp add: spec_cov_def)
next
  case False
  let ?n = "real (length us)"
  let ?mx = "sum_list us / ?n" and ?my = "sum_list vs / ?n"
  from False have n: "?n \<noteq> 0" "?n - 1 \<noteq> 0" "\<not> length us < 1"
    by auto
  have mx: "spec_mean (map Some us) = Some ?mx" and my: "spec_mean (map Some vs) = Some ?my"
    using n assms by (simp_all add: spec_mean_def)
  have m2: "map2 (\<lambda>a b. fmul (fsub a (Some ?mx)) (fsub b (Some ?my))) (map Some us) (map Some vs) =
        map Some (map (\<lambda>(u, v). (u - ?mx) * (v - ?my)) (zip us vs))"
    by (simp add: zip_map_map split_def)
  have "spec_cov (map Some us) (map Some vs) =
      fdiv (fsum (map2 (\<lambda>a b. fmul (fsub a (Some ?mx)) (fsub b (Some ?my)))
                    (map Some us) (map Some vs))) (Some (?n - 1))"
    unfolding spec_cov_def Let_def mx my using False by (simp only: length_map if_False)
  also have "\<dots> = fdiv (fsum (map Some (map (\<lambda>(u, v). (u - ?mx) * (v - ?my)) (zip us vs))))
                      (Some (?n - 1))"
    by (simp only: m2)
  also have "\<dots> = Some (sum_list (map (\<lambda>(u, v). (u - ?mx) * (v - ?my)) (zip us vs)) / (?n - 1))"
    using n by (simp only: fsum_Some fdiv.simps if_False)
  finally have s: "spec_cov (map Some us) (map Some vs) =
      Some (sum_list (map (\<lambda>(u, v). (u - ?mx) * (v - ?my)) (zip us vs)) / (?n - 1))" .
  have "pair_cov (map Some us) (map Some vs) =
      Some (sum_list (map (\<lambda>(u, v). (u - ?mx) * (v - ?my)) (zip us vs)) / (?n - 1))"
    using n assms by (auto simp: pair_cov_def Let_def)
  with s show ?thesis by simp
qed

lemma column_observed:
  assumes "observed p latest" and "j < p"
  shows "column j latest = map Some (map (\<lambda>r. the (snd r ! j)) latest)"
  using assms
  by (auto simp: observed_def column_def list_all_iff all_set_conv_all_nth)

lemma series_mean_valid: "series_mean cs = spec_mean (map Some (valid cs))"
  by (simp add: series_mean_def spec_mean_def Let_def)

lemma pair_cov_paired:
  "pair_cov as bs =
     spec_cov (map Some (map fst (paired as bs))) (map Some (map snd (paired as bs)))"
proof -
  have "paired (map Some (map fst (paired as bs))) (map Some (map snd (paired as bs))) =
        paired as bs"
    by (simp only: paired_Some zip_map_fst_snd)
  then have "pair_cov as bs =
     pair_cov (map Some (map fst (paired as bs))) (map Some (map snd (paired as bs)))"
    by (simp only: pair_cov_def)
  then show ?thesis
    by (simp only: pair_cov_Some length_map)
qed

text \<open>
  C4, as stated, fails where an observation is missing. Three rows precede 2023-03-31
  in \<open>gap_frame\<close>, with the observations \<open>1/100\<close>, NaN, \<open>3/100\<close>. The code returns the
  mean \<open>1/50\<close> and the variance \<open>1/5000\<close> of the two observed values, with denominator
  \<open>2 - 1\<close>; the mean and the covariance over the three selected rows are NaN.
\<close>

theorem estimates_skip_missing:
  "length (df_latest gap_frame 738610) = 3 \<and>
   expected_returns 1 (df_latest gap_frame 738610) = [Some (1/50)] \<and>
   spec_mean (column 0 (df_latest gap_frame 738610)) = None \<and>
   cov_matrix 1 (df_latest gap_frame 738610) = [[Some (1/5000)]] \<and>
   spec_cov (column 0 (df_latest gap_frame 738610)) (column 0 (df_latest gap_frame 738610)) = None"
  by (simp add: df_latest_def gap_frame_def expected_returns_def cov_matrix_def column_def
      series_mean_def pair_cov_def spec_mean_def spec_cov_def Let_def)

text \<open>
  C4 (amended): the expected return of an asset is the arithmetic mean of its observed
  (non-NaN) values in the selected rows, and the covariance of two assets is the sample
  covariance, with denominator \<open>m - 1\<close>, over the \<open>m\<close> selected rows in which both are
  observed; where no observation is missing in the selected rows, these are the mean over
  all \<open>n\<close> selected rows and the sample covariance with denominator \<open>n - 1\<close>.
\<close>

theorem estimates_over_observed_rows:
  "(\<forall>j < p. expected_returns p (df_latest R d) ! j =
            spec_mean (map Some (valid (column j (df_latest R d))))) \<and>
   (\<forall>j < p. \<forall>k < p. cov_matrix p (df_latest R d) ! j ! k =
      spec_cov (map Some (map fst (paired (column j (df_latest R d)) (column k (df_latest R d)))))
               (map Some (map snd (paired (column j (df_latest R d)) (column k (df_latest R d)))))) \<and>
   (observed p (df_latest R d) \<longrightarrow>
      (\<forall>j < p. expected_returns p (df_latest R d) ! j = spec_mean (column j (df_latest R d))) \<and>
      (\<forall>j < p. \<forall>k < p. cov_matrix p (df_latest R d) ! j ! k =
            spec_cov (column j (df_latest R d)) (column k (df_latest R d))))"
proof -
  let ?L = "df_latest R d"
  have e: "expected_returns p ?L ! j = series_mean (column j ?L)" if "j < p" for j
    using that by (simp add: expected_returns_def)
  have c: "cov_matrix p ?L ! j ! k = pair_cov (column j ?L) (column k ?L)"
    if "j < p" "k < p" for j k
    using that by (simp add: cov_matrix_def)
  have m1: "series_mean (column j ?L) = spec_mean (column j ?L)"
    if "observed p ?L" "j < p" for j
    unfolding column_observed [OF that] by (rule series_mean_Some)
  have c1: "pair_cov (column j ?L) (column k ?L) = spec_cov (column j ?L) (column k ?L)"
    if "observed p ?L" "j < p" "k < p" for j k
    unfolding column_observed [OF that(1,2)] column_observed [OF that(1,3)]
    by (rule pair_cov_Some) simp
  have g1: "\<forall>j < p. expected_returns p ?L ! j = spec_mean (map Some (valid (column j ?L)))"
    using e series_mean_valid by simp
  have g2: "\<forall>j < p. \<forall>k < p. cov_matrix p ?L ! j ! k =
      spec_cov (map Some (map fst (paired (column j ?L) (column k ?L))))
               (map Some (map snd (paired (column j ?L) (column k ?L))))"
    using c pair_cov_paired by (simp del: map_map)
  have g3: "observed p ?L \<longrightarrow>
      (\<forall>j < p. expected_returns p ?L ! j = spec_mean (column j ?L)) \<and>
      (\<forall>j < p. \<forall>k < p. cov_matrix p ?L ! j ! k = spec_cov (column j ?L) (column k ?L))"
    using e c m1 c1 by simp
  show ?thesis
    using g1 g2 g3 by blast
qed

theorem estimates_over_observed_rows_witness:
  "observed 1 (df_latest past_frame 738610) \<and>
   expected_returns 1 (df_latest past_frame 738610) ! 0 =
     spec_mean (column 0 (df_latest past_frame 738610)) \<and>
   cov_matrix 1 (df_latest past_frame 738610) ! 0 ! 0 =
     spec_cov (column 0 (df_latest past_frame 738610)) (column 0 (df_latest past_frame 738610)) \<and>
   expected_returns 1 (df_latest past_frame 738610) = [Some (3/100)] \<and>
   cov_matrix 1 (df_latest past_frame 738610) = [[Some (1/2500)]]"
proof -
  have h: "observed 1 (df_latest past_frame 738610)"
    by (simp add: observed_def df_latest_def past_frame_def del: not_None_eq)
  have v: "expected_returns 1 (df_latest past_frame 738610) = [Some (3/100)]"
    "cov_matrix 1 (df_latest past_frame 738610) = [[Some (1/2500)]]"
    by (simp_all add: df_latest_def past_frame_def expected_returns_def cov_matrix_def column_def
      series_mean_def pair_cov_def Let_def)
  show ?thesis
    using h v estimates_over_observed_rows [of 1 past_frame 738610] by auto
qed

subsection \<open>Benchmark weights\<close>

lemma equalise_weights_rows:
  assumes "stocks df \<noteq> []"
  shows "equalise_weights df =
           Inr \<lparr>by_index = True,
                wrows = map (\<lambda>r. (Some (fst r),
                                    replicate (length (snd r)) (Some (1 / real (length (stocks df))))))
                            (rows df)\<rparr>"
  using assms by (simp add: equalise_weights_def map_replicate_const)

text \<open>
  C5, as stated, fails on a frame without stock columns: the division \<open>1 / p\<close> raises.
\<close>

theorem equalise_weights_no_stocks:
  "equalise_weights no_stock_frame = Inl ZeroDivisionError"
  by (simp add: equalise_weights_def no_stock_frame_def)

text \<open>
  C5 (amended): for every rectangular return frame with \<open>p \<ge> 1\<close> stock columns,
  \<open>equalise_weights\<close> returns a weight frame with the same rows, labelled by the same
  \<open>month_end\<close> values, in which every stock cell of every row is \<open>1 / p\<close>, whatever
  the return cell was (a number or NaN).
\<close>

theorem equalise_weights_uniform:
  assumes "stocks df \<noteq> []" and "rectangular df"
  shows "\<exists>W. equalise_weights df = Inr W \<and> length (wrows W) = length (rows df) \<and>
           (\<forall>i < length (rows df).
              fst (wrows W ! i) = Some (fst (rows df ! i)) \<and>
              snd (wrows W ! i) =
                replicate (length (stocks df)) (Some (1 / real (length (stocks df)))))"
proof -
  have len: "length (snd (rows df ! i)) = length (stocks df)" if "i < length (rows df)" for i
    using assms(2) that by (simp add: rectangular_def list_all_length)
  show ?thesis
    using assms(1) len by (simp add: equalise_weights_rows)
qed

theorem equalise_weights_uniform_witness:
  "stocks two_stock_frame \<noteq> [] \<and> rectangular two_stock_frame \<and>
   equalise_weights two_stock_frame =
     Inr \<lparr>by_index = True,
          wrows = [(Some 738551, [Some (1/2), Some (1/2)]),
                   (Some 738579, [Some (1/2), Some (1/2)])]\<rparr>"
proof -
  have h1: "stocks two_stock_frame \<noteq> []"
    by (simp add: two_stock_frame_def)
  have h2: "rectangular two_stock_frame"
    by (simp add: two_stock_frame_def rectangular_def)
  obtain W where W: "equalise_weights two_stock_frame = Inr W"
    using equalise_weights_uniform [OF h1 h2] by blast
  show ?thesis
    using h1 h2 W by (simp add: equalise_weights_def two_stock_frame_def)
qed

subsection \<open>The loop over the test periods\<close>

lemma solve_period_Inr:
  "solve_period m R d W = Inr W' \<Longrightarrow>
     \<exists>opt. opt_result m R d = Some opt \<and> length (res_x opt) = length (stocks R) \<and>
       W' = \<lparr>by_index = False, wrows = drop_index W @ [(Some d, res_x opt)]\<rparr>"
  by (auto simp: solve_period_def concat_ignore_index_def drop_index_def Let_def
           split: option.splits if_splits)

lemma solve_period_not_limit: "solve_period m R d W \<noteq> Inl LimitExceeded"
  by (simp add: solve_period_def Let_def split: option.splits)

lemma period_loop_not_limit: "period_loop m R ds W \<noteq> Inl LimitExceeded"
proof (induction ds arbitrary: W)
  case Nil
  show ?case by simp
next
  case (Cons d ds)
  show ?case
  proof (cases "solve_period m R d W")
    case (Inl e)
    then show ?thesis using solve_period_not_limit [of m R d W] by auto
  next
    case (Inr W1)
    then show ?thesis using Cons.IH [of W1] by simp
  qed
qed

lemma period_loop_Inr:
  "period_loop m R ds W = Inr W' \<Longrightarrow>
     (\<forall>d \<in> set ds. \<exists>opt. opt_result m R d = Some opt \<and> length (res_x opt) = length (stocks R)) \<and>
     W' = (if ds = [] then W
           else \<lparr>by_index = False, wrows = drop_index W @ solved_rows m R ds\<rparr>)"
proof (induction ds arbitrary: W)
  case Nil
  then show ?case by simp
next
  case (Cons d ds)
  from Cons.prems obtain W1 where s: "solve_period m R d W = Inr W1"
    and l: "period_loop m R ds W1 = Inr W'"
    by (auto split: sum.splits)
  from solve_period_Inr [OF s] obtain opt where o: "opt_result m R d = Some opt"
    "length (res_x opt) = length (stocks R)"
    "W1 = \<lparr>by_index = False, wrows = drop_index W @ [(Some d, res_x opt)]\<rparr>"
    by blast
  from Cons.IH [OF l] have ih1: "\<forall>d \<in> set ds. \<exists>opt. opt_result m R d = Some opt \<and> length (res_x opt) = length (stocks R)"
    and ih2: "W' = (if ds = [] then W1 else \<lparr>by_index = False, wrows = drop_index W1 @ solved_rows m R ds\<rparr>)"
    by blast+
  have "W' = \<lparr>by_index = False, wrows = drop_index W @ solved_rows m R (d # ds)\<rparr>"
    using ih2 o by (simp add: solved_rows_def drop_index_def)
  then show ?case using ih1 o by auto
qed

lemma period_loop_total:
  assumes "\<And>d. d \<in> set ds \<Longrightarrow> \<exists>opt. opt_result m R d = Some opt \<and> length (res_x opt) = length (stocks R)"
  shows "\<exists>W'. period_loop m R ds W = Inr W'"
  using assms
proof (induction ds arbitrary: W)
  case Nil
  show ?case by simp
next
  case (Cons d ds)
  from Cons.prems [of d] obtain opt where "opt_result m R d = Some opt" "length (res_x opt) = length (stocks R)"
    by auto
  then obtain W1 where "solve_period m R d W = Inr W1"
    by (simp add: solve_period_def Let_def)
  moreover have "\<exists>W'. period_loop m R ds W1 = Inr W'"
    using Cons.IH [of W1] Cons.prems by simp
  ultimately show ?case by auto
qed

lemma length_drop_index [simp]: "length (drop_index W) = length (wrows W)"
  by (simp add: drop_index_def)

lemma map_snd_drop_index [simp]: "map snd (drop_index W) = map snd (wrows W)"
  by (simp add: drop_index_def comp_def)

lemma length_align_columns [simp]:
  "length (align_columns columns_from columns_to cells) = length columns_to"
  by (simp add: align_columns_def)

lemma align_columns_same:
  assumes "distinct columns" and "length cells = length columns"
  shows "align_columns columns columns cells = cells"
proof (rule nth_equalityI)
  show "length (align_columns columns columns cells) = length cells"
    using assms(2) by simp
  fix j assume "j < length (align_columns columns columns cells)"
  then have j: "j < length columns" by simp
  have "map_of (zip columns cells) (columns ! j) = Some (cells ! j)"
    using assms j by (intro map_of_zip_nth) simp_all
  then show "align_columns columns columns cells ! j = cells ! j"
    using j by (simp add: align_columns_def)
qed

lemma stocks_concat_returns:
  "stocks (concat_returns tr te) =
     stocks tr @ filter (\<lambda>s. s \<notin> set (stocks tr)) (stocks te)"
  by (simp add: concat_returns_def Let_def)

lemma stocks_concat_returns_subset:
  "set (stocks te) \<subseteq> set (stocks tr) \<Longrightarrow> stocks (concat_returns tr te) = stocks tr"
  by (auto simp: stocks_concat_returns filter_empty_conv)

lemma length_rows_concat_returns [simp]:
  "length (rows (concat_returns tr te)) = length (rows tr) + length (rows te)"
  by (simp add: concat_returns_def Let_def)

lemma rectangular_concat_returns: "rectangular (concat_returns tr te)"
  by (auto simp: rectangular_def concat_returns_def Let_def list_all_iff)

lemma concat_returns_same:
  assumes "stocks te = stocks tr" and "distinct (stocks tr)"
    and "rectangular tr" and "rectangular te"
  shows "concat_returns tr te = \<lparr>stocks = stocks tr, rows = rows tr @ rows te\<rparr>"
proof -
  have c: "filter (\<lambda>s. s \<notin> set (stocks tr)) (stocks tr) = []"
    by (simp add: filter_empty_conv)
  have a: "map (\<lambda>r. (fst r, align_columns (stocks tr) (stocks tr) (snd r))) (rows tr) = rows tr"
    using assms(2,3)
    by (intro map_idI) (simp add: rectangular_def list_all_iff align_columns_same prod_eq_iff)
  have b: "map (\<lambda>r. (fst r, align_columns (stocks tr) (stocks tr) (snd r))) (rows te) = rows te"
    using assms(1,2,4)
    by (intro map_idI) (simp add: rectangular_def list_all_iff align_columns_same prod_eq_iff)
  show ?thesis
    by (simp add: concat_returns_def Let_def assms(1) c a b)
qed

lemma weight_schedule_Inr:
  assumes "weight_schedule m tr te = Inr W"
  shows "stocks (concat_returns tr te) \<noteq> []"
    and "\<forall>d \<in> set (map fst (rows te)). \<exists>opt. opt_result m (concat_returns tr te) d = Some opt \<and>
            length (res_x opt) = length (stocks (concat_returns tr te))"
    and "map snd (wrows W) =
           replicate (length (rows tr))
             (replicate (length (stocks (concat_returns tr te)))
                (Some (1 / real (length (stocks (concat_returns tr te)))))) @
           map snd (solved_rows m (concat_returns tr te) (map fst (rows te)))"
    and "map fst (drop (length (rows tr)) (wrows W)) = map (\<lambda>r. Some (fst r)) (rows te)"
proof -
  let ?R = "concat_returns tr te"
  let ?p = "length (stocks ?R)"
  let ?E = "?R\<lparr>rows := take (length (rows tr)) (rows ?R)\<rparr>"
  show ne: "stocks ?R \<noteq> []"
    using assms by (auto simp: weight_schedule_def equalise_weights_def Let_def split: if_splits)
  have w: "length (snd r) = ?p" if "r \<in> set (take (length (rows tr)) (rows ?R))" for r
    using rectangular_concat_returns [of tr te] in_set_takeD [OF that]
    by (simp add: rectangular_def list_all_iff)
  have "map (\<lambda>r. (Some (fst r), replicate (length (snd r)) (Some (1 / real ?p))))
            (take (length (rows tr)) (rows ?R)) =
        map (\<lambda>r. (Some (fst r), replicate ?p (Some (1 / real ?p))))
            (take (length (rows tr)) (rows ?R))"
    using w by (intro map_cong) simp_all
  then have eq: "equalise_weights ?E = Inr \<lparr>by_index = True,
                wrows = map (\<lambda>r. (Some (fst r), replicate ?p (Some (1 / real ?p))))
                            (take (length (rows tr)) (rows ?R))\<rparr>" (is "_ = Inr ?W0")
    using ne equalise_weights_rows [of ?E] by simp
  then have loop: "period_loop m ?R (map fst (rows te)) ?W0 = Inr W"
    using assms by (simp add: weight_schedule_def Let_def)
  from period_loop_Inr [OF loop]
  have a: "\<forall>d \<in> set (map fst (rows te)). \<exists>opt. opt_result m ?R d = Some opt \<and> length (res_x opt) = ?p"
    and b: "W = (if map fst (rows te) = [] then ?W0
           else \<lparr>by_index = False, wrows = drop_index ?W0 @ solved_rows m ?R (map fst (rows te))\<rparr>)"
    by blast+
  show "\<forall>d \<in> set (map fst (rows te)). \<exists>opt. opt_result m ?R d = Some opt \<and> length (res_x opt) = ?p"
    by (rule a)
  have c: "map snd (wrows ?W0) = replicate (length (rows tr)) (replicate ?p (Some (1 / real ?p)))"
    by (simp add: comp_def map_replicate_const)
  have l: "length (wrows ?W0) = length (rows tr)"
    by simp
  show "map snd (wrows W) =
           replicate (length (rows tr)) (replicate ?p (Some (1 / real ?p))) @
           map snd (solved_rows m ?R (map fst (rows te)))"
  proof (cases "map fst (rows te) = []")
    case True
    then show ?thesis using b c by (simp add: solved_rows_def)
  next
    case False
    then have "map snd (wrows W) = map snd (wrows ?W0) @ map snd (solved_rows m ?R (map fst (rows te)))"
      using b by simp
    then show ?thesis by (simp only: c)
  qed
  show "map fst (drop (length (rows tr)) (wrows W)) = map (\<lambda>r. Some (fst r)) (rows te)"
  proof (cases "map fst (rows te) = []")
    case True
    then show ?thesis using b l by simp
  next
    case False
    then have "wrows W = drop_index ?W0 @ solved_rows m ?R (map fst (rows te))"
      using b by simp
    moreover have "length (drop_index ?W0) = length (rows tr)"
      using l by simp
    ultimately show ?thesis
      by (simp add: solved_rows_def comp_def)
  qed
qed

text \<open>
  The test of the limit check, in words: some stock cell of some row is a number above
  \<open>0.101\<close>. A NaN cell does not count.
\<close>

lemma limit_exceeded_iff:
  "limit_exceeded W \<longleftrightarrow> (\<exists>r \<in> set (wrows W). \<exists>c \<in> set (snd r). \<exists>v. c = Some v \<and> 101/1000 < v)"
proof -
  have "fgt c (101/1000) \<longleftrightarrow> (\<exists>v. c = Some v \<and> 101/1000 < v)" for c
    by (cases c) simp_all
  then show ?thesis
    by (auto simp: limit_exceeded_def filter_empty_conv)
qed

lemma opt_result_start [simp]:
  "opt_result solver_start R d =
     Some \<lparr>res_x = replicate (length (stocks R)) (fdiv (Some 1) (Some (real (length (stocks R))))),
           res_success = True\<rparr>"
  by (simp add: opt_result_def solver_start_def Let_def)

lemma opt_result_stalled [simp]:
  "opt_result solver_stalled R d =
     Some \<lparr>res_x = replicate (length (stocks R))
                     (fmul (fdiv (Some 1) (Some (real (length (stocks R))))) (Some (1/2))),
           res_success = False\<rparr>"
  by (simp add: opt_result_def solver_stalled_def Let_def)

lemma solve_period_start [simp]:
  "solve_period solver_start R d W =
     Inr \<lparr>by_index = False,
          wrows = drop_index W @
            [(Some d, replicate (length (stocks R)) (fdiv (Some 1) (Some (real (length (stocks R))))))]\<rparr>"
  by (simp add: solve_period_def concat_ignore_index_def drop_index_def)

lemma solve_period_stalled [simp]:
  "solve_period solver_stalled R d W =
     Inr \<lparr>by_index = False,
          wrows = drop_index W @
            [(Some d, replicate (length (stocks R))
                        (fmul (fdiv (Some 1) (Some (real (length (stocks R))))) (Some (1/2))))]\<rparr>"
  by (simp add: solve_period_def concat_ignore_index_def drop_index_def)

lemma solve_period_x:
  "solve_period m R d W =
     (case map_option res_x (opt_result m R d) of
        None \<Rightarrow> Inl SolverRaised
      | Some xs \<Rightarrow> if length xs \<noteq> length (stocks R) then Inl ValueError
                   else Inr (concat_ignore_index W \<lparr>by_index = False, wrows = [(Some d, xs)]\<rparr>))"
  by (simp add: solve_period_def Let_def split: option.splits)

lemma tenth_row_replicate: "replicate 10 (Some (1/10)) = tenth_row"
  by (simp add: tenth_row_def numeral_eq_Suc)

lemmas frame_defs = train10_def test10_def test10_overlap_def no_train10_def ten_stocks_def
  row_up_def row_down_def

lemma limit_exceeded_tenth:
  "\<not> limit_exceeded \<lparr>by_index = False, wrows = [(a, tenth_row), (b, tenth_row), (c, tenth_row), (d, tenth_row)]\<rparr>"
  "\<not> limit_exceeded \<lparr>by_index = False, wrows = [(a, tenth_row), (b, tenth_row)]\<rparr>"
  "\<not> limit_exceeded \<lparr>by_index = False,
       wrows = [(a, tenth_row), (b, tenth_row), (c, twentieth_row), (d, twentieth_row)]\<rparr>"
  by (simp_all add: limit_exceeded_def tenth_row_def twentieth_row_def)

lemma concat_frames:
  "concat_returns one_stock_train one_stock_test =
     \<lparr>stocks = [''A''], rows = [(738551, [Some (1/100)]), (738579, [Some (2/100)])]\<rparr>"
  "concat_returns train10 test10 =
     \<lparr>stocks = ten_stocks,
      rows = [(738520, row_up), (738551, row_down), (738579, row_down), (738610, row_up)]\<rparr>"
  "concat_returns train10 test10_overlap =
     \<lparr>stocks = ten_stocks,
      rows = [(738520, row_up), (738551, row_down), (738551, row_up), (738489, row_down)]\<rparr>"
  "concat_returns no_train10 test10 =
     \<lparr>stocks = ten_stocks, rows = [(738579, row_down), (738610, row_up)]\<rparr>"
  by (subst concat_returns_same;
      simp add: frame_defs one_stock_train_def one_stock_test_def rectangular_def)+

lemma ws_one_stock: "weight_schedule solver_start one_stock_train one_stock_test =
   Inr \<lparr>by_index = False, wrows = [(None, [Some 1]), (Some 738579, [Some 1])]\<rparr>"
  unfolding weight_schedule_def concat_frames
  by (simp add: one_stock_train_def one_stock_test_def
      equalise_weights_def solve_period_def concat_ignore_index_def drop_index_def Let_def)

lemma ws_stalled: "weight_schedule solver_stalled train10 test10 =
   Inr \<lparr>by_index = False,
        wrows = [(None, tenth_row), (None, tenth_row),
                 (Some 738579, twentieth_row), (Some 738610, twentieth_row)]\<rparr>"
  unfolding weight_schedule_def concat_frames
  by (simp add: frame_defs equalise_weights_def drop_index_def tenth_row_def twentieth_row_def)

lemma ws_overlap: "weight_schedule solver_start train10 test10_overlap =
   Inr \<lparr>by_index = False,
        wrows = [(None, tenth_row), (None, tenth_row),
                 (Some 738551, tenth_row), (Some 738489, tenth_row)]\<rparr>"
  unfolding weight_schedule_def concat_frames
  by (simp add: frame_defs equalise_weights_def drop_index_def tenth_row_def)


subsection \<open>The limit check\<close>

text \<open>
  C3: \<open>generate_portfolio\<close> raises the 10% limit error if and only if the loop ended and
  some weight of the final weight frame exceeds \<open>0.101\<close>; when the loop ended and no weight
  exceeds \<open>0.101\<close>, it returns the combined returns and the weight frame as the loop left
  it. The check is not part of the loop: neither the loop nor the construction of the weight
  frame ever raises that error.
\<close>

theorem limit_check_after_loop:
  "(generate_portfolio m tr te = Inl LimitExceeded \<longleftrightarrow>
      (\<exists>W. weight_schedule m tr te = Inr W \<and>
           (\<exists>r \<in> set (wrows W). \<exists>c \<in> set (snd r). \<exists>v. c = Some v \<and> 101/1000 < v))) \<and>
   (\<forall>W. weight_schedule m tr te = Inr W \<and>
        \<not> (\<exists>r \<in> set (wrows W). \<exists>c \<in> set (snd r). \<exists>v. c = Some v \<and> 101/1000 < v) \<longrightarrow>
        generate_portfolio m tr te = Inr (concat_returns tr te, W)) \<and>
   (\<forall>ds W. period_loop m (concat_returns tr te) ds W \<noteq> Inl LimitExceeded) \<and>
   weight_schedule m tr te \<noteq> Inl LimitExceeded"
proof -
  have loop: "\<forall>ds W. period_loop m (concat_returns tr te) ds W \<noteq> Inl LimitExceeded"
    by (simp add: period_loop_not_limit)
  have ws: "weight_schedule m tr te \<noteq> Inl LimitExceeded"
    using period_loop_not_limit
    by (auto simp: weight_schedule_def equalise_weights_def Let_def split: sum.splits if_splits)
  have raise: "generate_portfolio m tr te = Inl LimitExceeded \<longleftrightarrow>
      (\<exists>W. weight_schedule m tr te = Inr W \<and>
           (\<exists>r \<in> set (wrows W). \<exists>c \<in> set (snd r). \<exists>v. c = Some v \<and> 101/1000 < v))"
    using ws by (cases "weight_schedule m tr te") (auto simp: generate_portfolio_def limit_exceeded_iff)
  have ret: "\<forall>W. weight_schedule m tr te = Inr W \<and>
        \<not> (\<exists>r \<in> set (wrows W). \<exists>c \<in> set (snd r). \<exists>v. c = Some v \<and> 101/1000 < v) \<longrightarrow>
        generate_portfolio m tr te = Inr (concat_returns tr te, W)"
    by (auto simp: generate_portfolio_def limit_exceeded_iff)
  show ?thesis
    using loop ws raise ret by blast
qed

theorem limit_check_after_loop_witness:
  "weight_schedule solver_start one_stock_train one_stock_test =
     Inr \<lparr>by_index = False, wrows = [(None, [Some 1]), (Some 738579, [Some 1])]\<rparr> \<and>
   generate_portfolio solver_start one_stock_train one_stock_test = Inl LimitExceeded \<and>
   generate_portfolio solver_start train10 test10_overlap =
     Inr (concat_returns train10 test10_overlap,
          \<lparr>by_index = False,
           wrows = [(None, tenth_row), (None, tenth_row),
                    (Some 738551, tenth_row), (Some 738489, tenth_row)]\<rparr>)"
proof -
  have over: "\<exists>r \<in> set (wrows \<lparr>by_index = False,
                  wrows = [(None, [Some 1]), (Some 738579, [Some 1])]\<rparr>).
               \<exists>c \<in> set (snd r). \<exists>v. c = Some v \<and> 101/1000 < (v::real)"
    by simp
  have raised: "generate_portfolio solver_start one_stock_train one_stock_test = Inl LimitExceeded"
    using limit_check_after_loop [of solver_start one_stock_train one_stock_test] ws_one_stock over
    by blast
  have under: "\<not> (\<exists>r \<in> set (wrows \<lparr>by_index = False,
           wrows = [(None, tenth_row), (None, tenth_row),
                    (Some 738551, tenth_row), (Some 738489, tenth_row)]\<rparr>).
               \<exists>c \<in> set (snd r). \<exists>v. c = Some v \<and> 101/1000 < v)"
    by (simp add: tenth_row_def)
  have returned: "generate_portfolio solver_start train10 test10_overlap =
     Inr (concat_returns train10 test10_overlap,
          \<lparr>by_index = False,
           wrows = [(None, tenth_row), (None, tenth_row),
                    (Some 738551, tenth_row), (Some 738489, tenth_row)]\<rparr>)"
    using limit_check_after_loop [of solver_start train10 test10_overlap] ws_overlap under
    by blast
  show ?thesis
    using ws_one_stock raised returned by blast
qed

lemma returned_schedule_rows:
  assumes "generate_portfolio m df_train df_test = Inr (R, W)"
  shows "R = concat_returns df_train df_test"
    and "length (wrows W) = length (rows df_train) + length (rows df_test)"
    and "\<forall>i < length (rows df_train).
            snd (wrows W ! i) =
              replicate (length (stocks R)) (Some (1 / real (length (stocks R))))"
    and "\<forall>i < length (rows df_test).
            \<exists>opt. opt_result m R (fst (rows df_test ! i)) = Some opt \<and>
                  length (res_x opt) = length (stocks R) \<and>
                  wrows W ! (length (rows df_train) + i) = (Some (fst (rows df_test ! i)), res_x opt)"
proof -
  let ?n = "length (rows df_train)"
  from assms show R: "R = concat_returns df_train df_test"
    by (auto simp: generate_portfolio_def split: sum.splits if_splits)
  from assms have ws: "weight_schedule m df_train df_test = Inr W"
    by (auto simp: generate_portfolio_def split: sum.splits if_splits)
  let ?p = "length (stocks R)"
  note facts = weight_schedule_Inr [OF ws, folded R]
  let ?eq = "replicate ?n (replicate ?p (Some (1 / real ?p)))"
  let ?sv = "solved_rows m R (map fst (rows df_test))"
  have cells: "map snd (wrows W) = ?eq @ map snd ?sv"
    by (rule facts(3))
  show len: "length (wrows W) = ?n + length (rows df_test)"
    using arg_cong [OF cells, of length] by (simp add: solved_rows_def)
  have train: "snd (wrows W ! i) = replicate ?p (Some (1 / real ?p))" if "i < ?n" for i
  proof -
    have "snd (wrows W ! i) = map snd (wrows W) ! i"
      using that len by simp
    also have "\<dots> = ?eq ! i"
      using that by (simp add: cells nth_append)
    also have "\<dots> = replicate ?p (Some (1 / real ?p))"
      using that by simp
    finally show ?thesis .
  qed
  then show "\<forall>i < ?n. snd (wrows W ! i) = replicate ?p (Some (1 / real ?p))"
    by blast
  have test: "\<exists>opt. opt_result m R (fst (rows df_test ! i)) = Some opt \<and>
                  length (res_x opt) = ?p \<and>
                  wrows W ! (?n + i) = (Some (fst (rows df_test ! i)), res_x opt)"
    if "i < length (rows df_test)" for i
  proof -
    from that have "fst (rows df_test ! i) \<in> set (map fst (rows df_test))"
      by (metis length_map nth_map nth_mem)
    with facts(2) obtain opt where o: "opt_result m R (fst (rows df_test ! i)) = Some opt"
      "length (res_x opt) = ?p"
      by blast
    have "snd (wrows W ! (?n + i)) = map snd (wrows W) ! (?n + i)"
      using that len by simp
    also have "\<dots> = map snd ?sv ! i"
      by (simp add: cells nth_append)
    also have "\<dots> = res_x opt"
      using that o(1) by (simp add: solved_rows_def)
    finally have c: "snd (wrows W ! (?n + i)) = res_x opt" .
    have "fst (wrows W ! (?n + i)) = map fst (drop ?n (wrows W)) ! i"
      using that len by simp
    also have "\<dots> = Some (fst (rows df_test ! i))"
      using that by (simp add: facts(4))
    finally have "fst (wrows W ! (?n + i)) = Some (fst (rows df_test ! i))" .
    with c have "wrows W ! (?n + i) = (Some (fst (rows df_test ! i)), res_x opt)"
      by (simp add: prod_eq_iff)
    with o show ?thesis by blast
  qed
  then show "\<forall>i < length (rows df_test).
            \<exists>opt. opt_result m R (fst (rows df_test ! i)) = Some opt \<and>
                  length (res_x opt) = ?p \<and>
                  wrows W ! (?n + i) = (Some (fst (rows df_test ! i)), res_x opt)"
    by blast
qed

subsection \<open>Solver failures\<close>

lemma generate_portfolio_same_vectors:
  assumes "\<And>f x0 b c. map_option res_x (m1 f x0 b c) = map_option res_x (m2 f x0 b c)"
  shows "generate_portfolio m1 df_train df_test = generate_portfolio m2 df_train df_test"
proof -
  have o: "map_option res_x (opt_result m1 R d) = map_option res_x (opt_result m2 R d)" for R d
    using assms by (simp add: opt_result_def Let_def)
  have s: "solve_period m1 R d W = solve_period m2 R d W" for R d W
    by (simp add: solve_period_x o)
  have l: "period_loop m1 R ds W = period_loop m2 R ds W" for R ds W
    by (induction ds arbitrary: W) (simp_all add: s split: sum.splits)
  have w: "weight_schedule m1 df_train df_test = weight_schedule m2 df_train df_test"
    by (simp add: weight_schedule_def l Let_def split: sum.splits)
  show ?thesis
    by (simp add: generate_portfolio_def w)
qed

lemma twentieth_row_replicate: "replicate 10 (Some (1/20)) = twentieth_row"
  by (simp add: twentieth_row_def numeral_eq_Suc)

lemma stalled_vector:
  "opt_result solver_stalled (concat_returns train10 test10) d =
     Some \<lparr>res_x = twentieth_row, res_success = False\<rparr>"
proof -
  have l: "length (stocks (concat_returns train10 test10)) = 10"
    by (simp add: concat_frames ten_stocks_def)
  have "replicate 10 (fmul (fdiv (Some 1) (Some (real 10))) (Some (1/2))) = twentieth_row"
    using twentieth_row_replicate by simp
  then show ?thesis
    unfolding opt_result_stalled l by simp
qed

text \<open>
  C7, as stated, fails: \<open>solver_stalled\<close> reports for every period that it did not
  converge, and the run returns normally; the rows of the two test periods in the returned
  weight frame are the vectors of these solver runs, not the equal weights.
\<close>

theorem stalled_run_returns:
  "opt_result solver_stalled (concat_returns train10 test10) 738579 =
     Some \<lparr>res_x = twentieth_row, res_success = False\<rparr> \<and>
   opt_result solver_stalled (concat_returns train10 test10) 738610 =
     Some \<lparr>res_x = twentieth_row, res_success = False\<rparr> \<and>
   generate_portfolio solver_stalled train10 test10 =
     Inr (concat_returns train10 test10,
          \<lparr>by_index = False,
           wrows = [(None, tenth_row), (None, tenth_row),
                    (Some 738579, twentieth_row), (Some 738610, twentieth_row)]\<rparr>)"
proof -
  have g: "generate_portfolio solver_stalled train10 test10 =
     Inr (concat_returns train10 test10,
          \<lparr>by_index = False,
           wrows = [(None, tenth_row), (None, tenth_row),
                    (Some 738579, twentieth_row), (Some 738610, twentieth_row)]\<rparr>)"
    by (simp add: generate_portfolio_def ws_stalled limit_exceeded_tenth)
  show ?thesis
    by (rule conjI [OF stalled_vector conjI [OF stalled_vector g]])
qed

text \<open>
  C7 (amended): \<open>generate_portfolio\<close> never reads the field \<open>success\<close>. Whenever the call
  of the solver for a period returns a vector \<open>x\<close> with one entry per stock, the loop
  appends \<open>x\<close> as the row of that period, whether the solver reports convergence or not;
  in a returned weight frame the row of every test period is the vector the solver
  returned for it; and two solvers that return the same vectors (and raise on the same
  calls) give the same run, whatever they report about convergence.
\<close>

theorem nonconverged_result_appended:
  "(\<forall>opt. opt_result m R d = Some opt \<and> length (res_x opt) = length (stocks R) \<longrightarrow>
      solve_period m R d W =
        Inr (concat_ignore_index W \<lparr>by_index = False, wrows = [(Some d, res_x opt)]\<rparr>)) \<and>
   (\<forall>R' W'. generate_portfolio m df_train df_test = Inr (R', W') \<longrightarrow>
      (\<forall>i < length (rows df_test).
         \<exists>opt. opt_result m R' (fst (rows df_test ! i)) = Some opt \<and>
               wrows W' ! (length (rows df_train) + i) =
                 (Some (fst (rows df_test ! i)), res_x opt))) \<and>
   ((\<forall>f x0 b c. map_option res_x (m f x0 b c) = map_option res_x (m2 f x0 b c)) \<longrightarrow>
      generate_portfolio m df_train df_test = generate_portfolio m2 df_train df_test)"
proof -
  have a: "\<forall>opt. opt_result m R d = Some opt \<and> length (res_x opt) = length (stocks R) \<longrightarrow>
      solve_period m R d W =
        Inr (concat_ignore_index W \<lparr>by_index = False, wrows = [(Some d, res_x opt)]\<rparr>)"
    by (simp add: solve_period_def)
  have b: "\<forall>R' W'. generate_portfolio m df_train df_test = Inr (R', W') \<longrightarrow>
      (\<forall>i < length (rows df_test).
         \<exists>opt. opt_result m R' (fst (rows df_test ! i)) = Some opt \<and>
               wrows W' ! (length (rows df_train) + i) =
                 (Some (fst (rows df_test ! i)), res_x opt))"
    using returned_schedule_rows(4) by blast
  have c: "(\<forall>f x0 b c. map_option res_x (m f x0 b c) = map_option res_x (m2 f x0 b c)) \<longrightarrow>
      generate_portfolio m df_train df_test = generate_portfolio m2 df_train df_test"
    using generate_portfolio_same_vectors [of m m2] by blast
  show ?thesis
    using a b c by blast
qed

theorem nonconverged_result_appended_witness:
  "opt_result solver_stalled (concat_returns train10 test10) 738579 =
     Some \<lparr>res_x = twentieth_row, res_success = False\<rparr> \<and>
   length twentieth_row = length (stocks (concat_returns train10 test10)) \<and>
   solve_period solver_stalled (concat_returns train10 test10) 738579
       \<lparr>by_index = True, wrows = []\<rparr> =
     Inr \<lparr>by_index = False, wrows = [(Some 738579, twentieth_row)]\<rparr> \<and>
   (\<forall>f x0 b c. map_option res_x (solver_stalled f x0 b c) =
                 map_option res_x (solver_halved f x0 b c)) \<and>
   generate_portfolio solver_stalled train10 test10 =
     generate_portfolio solver_halved train10 test10"
proof -
  let ?R = "concat_returns train10 test10"
  note t = nonconverged_result_appended
    [of solver_stalled ?R 738579 "\<lparr>by_index = True, wrows = []\<rparr>" train10 test10 solver_halved]
  have o: "opt_result solver_stalled ?R 738579 = Some \<lparr>res_x = twentieth_row, res_success = False\<rparr>"
    by (rule stalled_vector)
  have l: "length twentieth_row = length (stocks ?R)"
    by (simp add: concat_frames ten_stocks_def twentieth_row_def)
  have "solve_period solver_stalled ?R 738579 \<lparr>by_index = True, wrows = []\<rparr> =
      Inr (concat_ignore_index \<lparr>by_index = True, wrows = []\<rparr>
             \<lparr>by_index = False, wrows = [(Some 738579, twentieth_row)]\<rparr>)"
    using t o l by auto
  then have s: "solve_period solver_stalled ?R 738579 \<lparr>by_index = True, wrows = []\<rparr> =
     Inr \<lparr>by_index = False, wrows = [(Some 738579, twentieth_row)]\<rparr>"
    by (simp add: concat_ignore_index_def drop_index_def)
  have h: "\<forall>f x0 b c. map_option res_x (solver_stalled f x0 b c) =
                 map_option res_x (solver_halved f x0 b c)"
    by (simp add: solver_stalled_def solver_halved_def)
  have g: "generate_portfolio solver_stalled train10 test10 =
     generate_portfolio solver_halved train10 test10"
    using t h by blast
  show ?thesis
    using o l s h g by blast
qed

subsection \<open>Degenerate estimates\<close>






subsection \<open>Date ordering\<close>

text \<open>
  C9, as stated, fails: the test dates below overlap the training dates and are not
  ascending; the run estimates and solves both periods and returns.
\<close>

theorem overlapping_run_returns:
  "generate_portfolio solver_start train10 test10_overlap =
     Inr (concat_returns train10 test10_overlap,
          \<lparr>by_index = False,
           wrows = [(None, tenth_row), (None, tenth_row),
                    (Some 738551, tenth_row), (Some 738489, tenth_row)]\<rparr>)"
  by (simp add: generate_portfolio_def ws_overlap limit_exceeded_tenth)

text \<open>
  C9 (amended): \<open>generate_portfolio\<close> does not look at the order of the dates. For any
  two frames, with at least one stock and a solver that returns a vector of the length of
  its start vector, every test period is estimated and solved: the loop ends with one row
  per training row and per test row, and the run ends in the 10% limit error or returns.
\<close>

theorem no_ordering_check:
  assumes "stocks df_train \<noteq> []"
    and "\<And>f x0 b c. \<exists>opt. m f x0 b c = Some opt \<and> length (res_x opt) = length x0"
  shows "\<exists>W. weight_schedule m df_train df_test = Inr W \<and>
             length (wrows W) = length (rows df_train) + length (rows df_test) \<and>
             (generate_portfolio m df_train df_test = Inl LimitExceeded \<or>
              generate_portfolio m df_train df_test = Inr (concat_returns df_train df_test, W))"
proof -
  let ?R = "concat_returns df_train df_test"
  have o: "\<exists>opt. opt_result m ?R d = Some opt \<and> length (res_x opt) = length (stocks ?R)" for d
    using assms(2) [of _ "replicate (length (stocks ?R)) (fdiv (Some 1) (Some (real (length (stocks ?R)))))"]
    by (simp add: opt_result_def Let_def)
  obtain W0 where e: "equalise_weights (?R\<lparr>rows := take (length (rows df_train)) (rows ?R)\<rparr>) = Inr W0"
    using assms(1) by (simp add: equalise_weights_def stocks_concat_returns)
  obtain W where l: "period_loop m ?R (map fst (rows df_test)) W0 = Inr W"
    using period_loop_total [of "map fst (rows df_test)" m ?R W0] o by blast
  have ws: "weight_schedule m df_train df_test = Inr W"
    using e l by (simp add: weight_schedule_def Let_def)
  have "length (map snd (wrows W)) = length (rows df_train) + length (rows df_test)"
    unfolding weight_schedule_Inr(3) [OF ws] by (simp add: solved_rows_def)
  then have len: "length (wrows W) = length (rows df_train) + length (rows df_test)"
    by simp
  have "generate_portfolio m df_train df_test = Inl LimitExceeded \<or>
        generate_portfolio m df_train df_test = Inr (?R, W)"
    using ws by (simp add: generate_portfolio_def)
  with ws len show ?thesis by blast
qed

theorem no_ordering_check_witness:
  "stocks train10 \<noteq> [] \<and>
   (\<forall>f x0 b c. \<exists>opt. solver_start f x0 b c = Some opt \<and> length (res_x opt) = length x0) \<and>
   (\<exists>W. weight_schedule solver_start train10 test10_overlap = Inr W \<and>
        length (wrows W) = length (rows train10) + length (rows test10_overlap) \<and>
        (generate_portfolio solver_start train10 test10_overlap = Inl LimitExceeded \<or>
         generate_portfolio solver_start train10 test10_overlap =
           Inr (concat_returns train10 test10_overlap, W)))"
proof -
  have h1: "stocks train10 \<noteq> []"
    by (simp add: train10_def ten_stocks_def)
  have h2: "\<exists>opt. solver_start f x0 b c = Some opt \<and> length (res_x opt) = length x0" for f x0 b c
    by (simp add: solver_start_def)
  show ?thesis
    using h1 h2 no_ordering_check [of train10 solver_start test10_overlap, OF h1 h2] by blast
qed

subsection \<open>Shape of the weight frame\<close>

text \<open>
  C10: when \<open>generate_portfolio\<close> returns, the weight frame has one row per training
  row followed by one row per test row; every stock cell of a training row is \<open>1 / p\<close>,
  \<open>p\<close> the number of stock columns of the combined return frame, which are the columns of
  the training frame when the test frame has no other; the row of the \<open>i\<close>-th test period
  carries that period's \<open>month_end\<close> and the vector \<open>x\<close> that the solver returned for it.
\<close>

theorem generate_portfolio_schedule_shape:
  assumes "generate_portfolio m df_train df_test = Inr (R, W)"
  shows "R = concat_returns df_train df_test \<and>
         (set (stocks df_test) \<subseteq> set (stocks df_train) \<longrightarrow> stocks R = stocks df_train) \<and>
         length (wrows W) = length (rows df_train) + length (rows df_test) \<and>
         (\<forall>i < length (rows df_train).
            snd (wrows W ! i) =
              replicate (length (stocks R)) (Some (1 / real (length (stocks R))))) \<and>
         (\<forall>i < length (rows df_test).
            \<exists>opt. opt_result m R (fst (rows df_test ! i)) = Some opt \<and>
                  length (res_x opt) = length (stocks R) \<and>
                  wrows W ! (length (rows df_train) + i) = (Some (fst (rows df_test ! i)), res_x opt))"
proof -
  note r = returned_schedule_rows [OF assms]
  have "set (stocks df_test) \<subseteq> set (stocks df_train) \<longrightarrow> stocks R = stocks df_train"
    using r(1) stocks_concat_returns_subset by blast
  then show ?thesis
    using r by blast
qed

theorem generate_portfolio_schedule_shape_witness:
  "generate_portfolio solver_stalled train10 test10 =
     Inr (concat_returns train10 test10,
          \<lparr>by_index = False,
           wrows = [(None, tenth_row), (None, tenth_row),
                    (Some 738579, twentieth_row), (Some 738610, twentieth_row)]\<rparr>) \<and>
   stocks (concat_returns train10 test10) = stocks train10 \<and>
   length (wrows \<lparr>by_index = False,
           wrows = [(None, tenth_row), (None, tenth_row),
                    (Some 738579, twentieth_row), (Some 738610, twentieth_row)]\<rparr>) =
     length (rows train10) + length (rows test10)"
proof -
  have h: "generate_portfolio solver_stalled train10 test10 =
     Inr (concat_returns train10 test10,
          \<lparr>by_index = False,
           wrows = [(None, tenth_row), (None, tenth_row),
                    (Some 738579, twentieth_row), (Some 738610, twentieth_row)]\<rparr>)"
    by (simp add: generate_portfolio_def ws_stalled limit_exceeded_tenth)
  have s: "set (stocks test10) \<subseteq> set (stocks train10)"
    by (simp add: train10_def test10_def)
  show ?thesis
    using h s generate_portfolio_schedule_shape [OF h] by blast
qed

subsection \<open>Total return indices\<close>

lemma spec_period_return_eq:
  "fsum (map2 fmul ws (map nan_to_num cs)) = spec_period_return ws cs"
proof -
  have "map2 fmul ws (map nan_to_num cs) =
        map2 (\<lambda>w c. fmul w (case c of None \<Rightarrow> Some 0 | Some v \<Rightarrow> Some v)) ws cs"
    by (simp add: zip_map2 nan_to_num_def split_def)
  then show ?thesis
    by (simp only: spec_period_return_def)
qed

lemma weighted_returns_length:
  "weighted_returns W ar = Inr v \<Longrightarrow> length v = length ar"
  by (auto simp: weighted_returns_def Let_def split: if_splits)

lemma weighted_returns_aligned:
  assumes "length (wrows W) = length rs"
  shows "weighted_returns W (map (\<lambda>r. map nan_to_num (snd r)) rs) =
           Inr (map2 (\<lambda>r w. spec_period_return (snd w) (snd r)) rs (wrows W))"
proof -
  have "map2 (\<lambda>w r. fsum (map2 fmul w r)) (map snd (wrows W)) (map (\<lambda>r. map nan_to_num (snd r)) rs) =
        map2 (\<lambda>r w. spec_period_return (snd w) (snd r)) rs (wrows W)"
    using assms
    by (intro nth_equalityI) (simp_all add: spec_period_return_eq)
  then show ?thesis
    using assms by (simp add: weighted_returns_def Let_def)
qed

lemma length_cumprod [simp]: "length (cumprod acc cs) = length cs"
  by (induction acc cs rule: cumprod.induct) simp_all

lemma cumprod_nth:
  "t < length cs \<Longrightarrow> \<forall>k \<le> t. cs ! k \<noteq> None \<Longrightarrow>
     cumprod acc cs ! t = Some (acc * (\<Prod>k \<le> t. the (cs ! k)))"
proof (induction acc cs arbitrary: t rule: cumprod.induct)
  case (1 acc)
  then show ?case by simp
next
  case (2 acc cs)
  then have "(None # cs) ! 0 \<noteq> None" by blast
  then show ?case by simp
next
  case (3 acc v cs)
  show ?case
  proof (cases t)
    case 0
    then show ?thesis by simp
  next
    case (Suc t')
    have a: "t' < length cs" using "3.prems"(1) Suc by simp
    have b: "\<forall>k \<le> t'. cs ! k \<noteq> None"
    proof (intro allI impI)
      fix k assume "k \<le> t'"
      then have "Suc k \<le> t" using Suc by simp
      with "3.prems"(2) have "(Some v # cs) ! Suc k \<noteq> None" by blast
      then show "cs ! k \<noteq> None" by simp
    qed
    have "cumprod (acc * v) cs ! t' = Some (acc * v * (\<Prod>k \<le> t'. the (cs ! k)))"
      using "3.IH" [OF a b] .
    then show ?thesis
      by (simp add: Suc prod.atMost_Suc_shift mult.assoc del: prod.atMost_Suc)
  qed
qed

lemma total_return_nth:
  assumes "t < length v" and "\<forall>k \<le> t. v ! k \<noteq> None"
  shows "total_return v ! t = Some (100 * (\<Prod>k \<le> t. 1 + the (v ! k)))"
proof -
  let ?cs = "map (\<lambda>c. fadd (Some 1) c) v"
  have n: "\<forall>k \<le> t. ?cs ! k \<noteq> None"
    using assms by (auto simp: )
  have e: "the (?cs ! k) = 1 + the (v ! k)" if "k \<le> t" for k
    using assms that by (cases "v ! k") auto
  have "cumprod 1 ?cs ! t = Some (1 * (\<Prod>k \<le> t. the (?cs ! k)))"
    using assms(1) n by (intro cumprod_nth) simp_all
  also have "(\<Prod>k \<le> t. the (?cs ! k)) = (\<Prod>k \<le> t. 1 + the (v ! k))"
    using e by (intro prod.cong) simp_all
  finally show ?thesis
    using assms(1) by (simp add: total_return_def mult.commute)
qed

lemma length_total_return [simp]: "length (total_return v) = length v"
  by (simp add: total_return_def)

lemma map_sort_key: "map f (sort_key f xs) = sort (map f xs)"
  by (rule properties_for_sort [symmetric]) simp_all

lemma map_zip_fst: "length xs = length ys \<Longrightarrow> map (\<lambda>p. f (fst p)) (zip xs ys) = map f xs"
  by (induction xs ys rule: list_induct2) simp_all

lemma map_zip_snd: "length xs = length ys \<Longrightarrow> map (\<lambda>p. g (snd p)) (zip xs ys) = map g ys"
  by (induction xs ys rule: list_induct2) simp_all

lemma plot_total_return_Inr:
  assumes "plot_total_return R Wi Wp = Inr out"
  obtains vi vp where
    "weighted_returns Wi (map (\<lambda>r. map nan_to_num (snd r)) (rows R)) = Inr vi"
    "weighted_returns Wp (map (\<lambda>r. map nan_to_num (snd r)) (rows R)) = Inr vp"
    "length vi = length (rows R)" "length vp = length (rows R)"
    "length out = length (rows R)"
    "map month_end out = map fst (sort_key fst (zip (map fst (rows R)) (zip vi vp)))"
    "map index out = map (\<lambda>z. fst (snd z)) (sort_key fst (zip (map fst (rows R)) (zip vi vp)))"
    "map portfolio out = map (\<lambda>z. snd (snd z)) (sort_key fst (zip (map fst (rows R)) (zip vi vp)))"
    "map index_tr out = total_return (map index out)"
    "map portfolio_tr out = total_return (map portfolio out)"
proof -
  let ?ar = "map (\<lambda>r. map nan_to_num (snd r)) (rows R)"
  from assms obtain vi vp where vi: "weighted_returns Wi ?ar = Inr vi"
    and vp: "weighted_returns Wp ?ar = Inr vp"
    by (auto simp: plot_total_return_def Let_def split: sum.splits)
  let ?S = "sort_key fst (zip (map fst (rows R)) (zip vi vp))"
  let ?ti = "total_return (map (\<lambda>r. fst (snd r)) ?S)"
  let ?tp = "total_return (map (\<lambda>r. snd (snd r)) ?S)"
  have li: "length vi = length (rows R)" and lp: "length vp = length (rows R)"
    using weighted_returns_length [OF vi] weighted_returns_length [OF vp] by simp_all
  have lS: "length ?S = length (rows R)"
    using li lp by simp
  have out: "out = map (\<lambda>(r, t). \<lparr>month_end = fst r, index = fst (snd r),
                                           portfolio = snd (snd r),
                                           index_tr = fst t, portfolio_tr = snd t\<rparr>)
                               (zip ?S (zip ?ti ?tp))"
    using assms vi vp by (simp add: plot_total_return_def Let_def)
  have lz: "length ?S = length (zip ?ti ?tp)"
    by simp
  have m1: "map month_end out = map fst ?S"
    unfolding out using map_zip_fst [OF lz, of fst] by (simp add: split_def comp_def)
  have m2: "map index out = map (\<lambda>z. fst (snd z)) ?S"
    unfolding out using map_zip_fst [OF lz, of "\<lambda>z. fst (snd z)"] by (simp add: split_def comp_def)
  have m3: "map portfolio out = map (\<lambda>z. snd (snd z)) ?S"
    unfolding out using map_zip_fst [OF lz, of "\<lambda>z. snd (snd z)"] by (simp add: split_def comp_def)
  have "map index_tr out = map fst (zip ?ti ?tp)"
    unfolding out using map_zip_snd [OF lz, of fst] by (simp add: split_def comp_def)
  then have m4: "map index_tr out = total_return (map index out)"
    unfolding m2 by simp
  have "map portfolio_tr out = map snd (zip ?ti ?tp)"
    unfolding out using map_zip_snd [OF lz, of snd] by (simp add: split_def comp_def)
  then have m5: "map portfolio_tr out = total_return (map portfolio out)"
    unfolding m3 by simp
  have lo: "length out = length (rows R)"
    using lS unfolding out by simp
  show thesis
    using that [OF vi vp li lp lo m1 m2 m3 m4 m5] .
qed

lemma map_pair_zip: "map (\<lambda>x. (f x, g x)) xs = zip (map f xs) (map g xs)"
  by (induction xs) simp_all

lemma zip3_first:
  "length ds = length a \<Longrightarrow> length a = length b \<Longrightarrow>
     map (\<lambda>z. (fst z, fst (snd z))) (zip ds (zip a b)) = zip ds a"
  by (induction ds a b rule: list_induct3) simp_all

lemma zip3_second:
  "length ds = length a \<Longrightarrow> length a = length b \<Longrightarrow>
     map (\<lambda>z. (fst z, snd (snd z))) (zip ds (zip a b)) = zip ds b"
  by (induction ds a b rule: list_induct3) simp_all

lemma zip_dates_returns:
  assumes "length ws = length rs"
  shows "zip (map fst rs) (map2 (\<lambda>r w. spec_period_return (snd w) (snd r)) rs ws) =
         map2 (\<lambda>r w. (fst r, spec_period_return (snd w) (snd r))) rs ws"
  using assms by (intro nth_equalityI) simp_all

text \<open>
  C6: when \<open>plot_total_return\<close> returns, its rows are in ascending order of
  \<open>month_end\<close>; for weight frames with one row per return row, the return of a period is
  the sum over the assets of weight times return, a missing return counting as \<open>0\<close>; as
  long as no return up to row \<open>t\<close> is NaN, the index of row \<open>t\<close> is \<open>100\<close> times the
  product of \<open>1 + return\<close> over the rows up to \<open>t\<close>; and with a first return of \<open>0\<close>
  the first index is \<open>100\<close>. This holds for the index series and for the portfolio series.
\<close>

theorem plot_total_return_indices:
  assumes "plot_total_return R Wi Wp = Inr out"
  shows "map month_end out = sort (map fst (rows R)) \<and>
     (length (wrows Wi) = length (rows R) \<longrightarrow>
        mset (map (\<lambda>r. (month_end r, index r)) out) =
        mset (map2 (\<lambda>r w. (fst r, spec_period_return (snd w) (snd r))) (rows R) (wrows Wi))) \<and>
     (length (wrows Wp) = length (rows R) \<longrightarrow>
        mset (map (\<lambda>r. (month_end r, portfolio r)) out) =
        mset (map2 (\<lambda>r w. (fst r, spec_period_return (snd w) (snd r))) (rows R) (wrows Wp))) \<and>
     (\<forall>t < length out. (\<forall>k \<le> t. index (out ! k) \<noteq> None) \<longrightarrow>
        index_tr (out ! t) = Some (100 * (\<Prod>k \<le> t. 1 + the (index (out ! k))))) \<and>
     (\<forall>t < length out. (\<forall>k \<le> t. portfolio (out ! k) \<noteq> None) \<longrightarrow>
        portfolio_tr (out ! t) = Some (100 * (\<Prod>k \<le> t. 1 + the (portfolio (out ! k))))) \<and>
     (out \<noteq> [] \<and> index (out ! 0) = Some 0 \<longrightarrow> index_tr (out ! 0) = Some 100) \<and>
     (out \<noteq> [] \<and> portfolio (out ! 0) = Some 0 \<longrightarrow> portfolio_tr (out ! 0) = Some 100)"
proof -
  let ?ar = "map (\<lambda>r. map nan_to_num (snd r)) (rows R)"
  from assms obtain vi vp where
    vi: "weighted_returns Wi ?ar = Inr vi" and vp: "weighted_returns Wp ?ar = Inr vp"
    and li: "length vi = length (rows R)" and lp: "length vp = length (rows R)"
    and lo: "length out = length (rows R)"
    and m1: "map month_end out = map fst (sort_key fst (zip (map fst (rows R)) (zip vi vp)))"
    and m2: "map index out = map (\<lambda>z. fst (snd z)) (sort_key fst (zip (map fst (rows R)) (zip vi vp)))"
    and m3: "map portfolio out = map (\<lambda>z. snd (snd z)) (sort_key fst (zip (map fst (rows R)) (zip vi vp)))"
    and m4: "map index_tr out = total_return (map index out)"
    and m5: "map portfolio_tr out = total_return (map portfolio out)"
    by (rule plot_total_return_Inr)
  let ?Z = "zip (map fst (rows R)) (zip vi vp)"
  have dates: "map month_end out = sort (map fst (rows R))"
    using li lp by (simp add: m1 map_sort_key)
  have pi: "map (\<lambda>r. (month_end r, index r)) out = map (\<lambda>z. (fst z, fst (snd z))) (sort_key fst ?Z)"
    by (simp only: map_pair_zip m1 m2)
  have pp: "map (\<lambda>r. (month_end r, portfolio r)) out = map (\<lambda>z. (fst z, snd (snd z))) (sort_key fst ?Z)"
    by (simp only: map_pair_zip m1 m3)
  have bi: "mset (map (\<lambda>r. (month_end r, index r)) out) =
        mset (map2 (\<lambda>r w. (fst r, spec_period_return (snd w) (snd r))) (rows R) (wrows Wi))"
    if l: "length (wrows Wi) = length (rows R)"
  proof -
    have "vi = map2 (\<lambda>r w. spec_period_return (snd w) (snd r)) (rows R) (wrows Wi)"
      using vi weighted_returns_aligned [OF l] by simp
    then have "zip (map fst (rows R)) vi =
        map2 (\<lambda>r w. (fst r, spec_period_return (snd w) (snd r))) (rows R) (wrows Wi)"
      using zip_dates_returns [OF l] by simp
    moreover have "mset (map (\<lambda>r. (month_end r, index r)) out) = mset (zip (map fst (rows R)) vi)"
    proof -
      have z: "map (\<lambda>z. (fst z, fst (snd z))) ?Z = zip (map fst (rows R)) vi"
        using li lp by (intro zip3_first) simp_all
      have "mset (map (\<lambda>z. (fst z, fst (snd z))) (sort_key fst ?Z)) =
            mset (map (\<lambda>z. (fst z, fst (snd z))) ?Z)"
        by simp
      then show ?thesis
        by (simp only: pi z)
    qed
    ultimately show ?thesis by simp
  qed
  have bp: "mset (map (\<lambda>r. (month_end r, portfolio r)) out) =
        mset (map2 (\<lambda>r w. (fst r, spec_period_return (snd w) (snd r))) (rows R) (wrows Wp))"
    if l: "length (wrows Wp) = length (rows R)"
  proof -
    have "vp = map2 (\<lambda>r w. spec_period_return (snd w) (snd r)) (rows R) (wrows Wp)"
      using vp weighted_returns_aligned [OF l] by simp
    then have "zip (map fst (rows R)) vp =
        map2 (\<lambda>r w. (fst r, spec_period_return (snd w) (snd r))) (rows R) (wrows Wp)"
      using zip_dates_returns [OF l] by simp
    moreover have "mset (map (\<lambda>r. (month_end r, portfolio r)) out) = mset (zip (map fst (rows R)) vp)"
    proof -
      have z: "map (\<lambda>z. (fst z, snd (snd z))) ?Z = zip (map fst (rows R)) vp"
        using li lp by (intro zip3_second) simp_all
      have "mset (map (\<lambda>z. (fst z, snd (snd z))) (sort_key fst ?Z)) =
            mset (map (\<lambda>z. (fst z, snd (snd z))) ?Z)"
        by simp
      then show ?thesis
        by (simp only: pp z)
    qed
    ultimately show ?thesis by simp
  qed
  have ci: "index_tr (out ! t) = Some (100 * (\<Prod>k \<le> t. 1 + the (index (out ! k))))"
    if "t < length out" "\<forall>k \<le> t. index (out ! k) \<noteq> None" for t
  proof -
    have "index_tr (out ! t) = map index_tr out ! t"
      using that(1) by simp
    also have "\<dots> = total_return (map index out) ! t"
      by (simp only: m4)
    also have "\<dots> = Some (100 * (\<Prod>k \<le> t. 1 + the (map index out ! k)))"
      using that by (intro total_return_nth) simp_all
    also have "(\<Prod>k \<le> t. 1 + the (map index out ! k)) = (\<Prod>k \<le> t. 1 + the (index (out ! k)))"
      using that(1) by (intro prod.cong) simp_all
    finally show ?thesis .
  qed
  have cp: "portfolio_tr (out ! t) = Some (100 * (\<Prod>k \<le> t. 1 + the (portfolio (out ! k))))"
    if "t < length out" "\<forall>k \<le> t. portfolio (out ! k) \<noteq> None" for t
  proof -
    have "portfolio_tr (out ! t) = map portfolio_tr out ! t"
      using that(1) by simp
    also have "\<dots> = total_return (map portfolio out) ! t"
      by (simp only: m5)
    also have "\<dots> = Some (100 * (\<Prod>k \<le> t. 1 + the (map portfolio out ! k)))"
      using that by (intro total_return_nth) simp_all
    also have "(\<Prod>k \<le> t. 1 + the (map portfolio out ! k)) = (\<Prod>k \<le> t. 1 + the (portfolio (out ! k)))"
      using that(1) by (intro prod.cong) simp_all
    finally show ?thesis .
  qed
  have di: "index_tr (out ! 0) = Some 100" if "out \<noteq> []" "index (out ! 0) = Some 0"
    using ci [of 0] that by simp
  have dp: "portfolio_tr (out ! 0) = Some 100" if "out \<noteq> []" "portfolio (out ! 0) = Some 0"
    using cp [of 0] that by simp
  show ?thesis
    using dates bi bp ci cp di dp by blast
qed

lemma plot_rtn_frame:
  "plot_total_return rtn_frame rtn_index_weights rtn_portfolio_weights = Inr rtn_expected"
  by (simp add: plot_total_return_def weighted_returns_def total_return_def nan_to_num_def
      rtn_frame_def rtn_index_weights_def rtn_portfolio_weights_def rtn_expected_def Let_def)

theorem plot_total_return_indices_witness:
  "plot_total_return rtn_frame rtn_index_weights rtn_portfolio_weights = Inr rtn_expected \<and>
   map month_end rtn_expected = sort (map fst (rows rtn_frame)) \<and>
   index (rtn_expected ! 0) = Some 0 \<and> index_tr (rtn_expected ! 0) = Some 100 \<and>
   portfolio (rtn_expected ! 0) = Some 0 \<and> portfolio_tr (rtn_expected ! 0) = Some 100 \<and>
   index_tr (rtn_expected ! 1) = Some (100 * (\<Prod>k \<le> 1. 1 + the (index (rtn_expected ! k))))"
proof -
  have h: "plot_total_return rtn_frame rtn_index_weights rtn_portfolio_weights = Inr rtn_expected"
    by (rule plot_rtn_frame)
  note t = plot_total_return_indices [OF h]
  have a: "map month_end rtn_expected = sort (map fst (rows rtn_frame))"
    using t by blast
  have i0: "index (rtn_expected ! 0) = Some 0" "portfolio (rtn_expected ! 0) = Some 0"
    "rtn_expected \<noteq> []" "1 < length rtn_expected"
    "\<forall>k \<le> 1. index (rtn_expected ! k) \<noteq> None"
    by (simp_all add: rtn_expected_def le_Suc_eq del: not_None_eq)
  have b: "index_tr (rtn_expected ! 0) = Some 100" "portfolio_tr (rtn_expected ! 0) = Some 100"
    using t i0 by blast+
  have c: "index_tr (rtn_expected ! 1) = Some (100 * (\<Prod>k \<le> 1. 1 + the (index (rtn_expected ! k))))"
    using t i0(4,5) by blast
  show ?thesis
    using h a i0 b c by blast
qed

end
